theory Spec2Isabelle
  imports Main
begin

section \<open>Data model\<close>

text \<open>
  \<^verbatim>\<open>interface ThemeData { id; name; description; favoritesCount; versionsCount }\<close>.
  The field \<^verbatim>\<open>id\<close> is written \<open>id'\<close> (HOL has a constant \<open>id\<close>);
  \<^verbatim>\<open>number\<close> is modelled as \<open>int\<close> (a decrement may pass zero).
\<close>

record ThemeData =
  id' :: string
  name :: string
  description :: string
  favoritesCount :: int
  versionsCount :: int

text \<open>
  Modelled from the spec: the \<^verbatim>\<open>Theme\<close> and \<^verbatim>\<open>Plugin\<close> models are not among the
  sources. "Theme / Plugin: entities with id, name, description, favoritesCount (denormalized
  counter), versionsCount". A row has the columns of \<open>ThemeData\<close> and the owner column
  \<^verbatim>\<open>userId\<close> that \<^verbatim>\<open>Theme.findAll({ where: { userId: userData.id } })\<close> filters on.
\<close>

record Theme = ThemeData +
  userId :: string

type_synonym Plugin = Theme

text \<open>
  Modelled from the spec: the \<^verbatim>\<open>FavoriteTheme\<close> and \<^verbatim>\<open>FavoritePlugin\<close> models are not
  among the sources. "FavoriteTheme / FavoritePlugin: join records keyed by (userId,
  themeId/pluginId)". A row has the two columns the handlers write,
  \<^verbatim>\<open>FavoriteTheme.create({ userId: userData.id, id: themeId })\<close>: the column \<^verbatim>\<open>id\<close>
  holds the id of the favorited theme (plugin). The tables are lists of rows.
\<close>

record FavoriteTheme =
  fav_userId :: string
  fav_id :: string

type_synonym FavoritePlugin = FavoriteTheme

record Database =
  themes :: "Theme list"
  favoriteThemes :: "FavoriteTheme list"
  plugins :: "Plugin list"
  favoritePlugins :: "FavoritePlugin list"

text \<open>
  \<^verbatim>\<open>req.userData\<close>: the handlers read its \<^verbatim>\<open>id\<close> (written \<open>uid\<close>) and pass it to
  \<^verbatim>\<open>checkIsAdminUser\<close>, which is a parameter of the fetch handlers.
\<close>

record UserData =
  uid :: string

text \<open>
  The parts of the request the handlers read. \<^verbatim>\<open>req.query.userId\<close> and
  \<^verbatim>\<open>req.session.userId\<close> are \<open>None\<close> when undefined.
\<close>

record Request =
  userData :: UserData
  query_userId :: "string option"
  session_userId :: "string option"
  body_themeId :: string
  params_themeId :: string
  body_pluginId :: string
  params_pluginId :: string

section \<open>Effects: database calls that may raise, responses, the log\<close>

text \<open>
  Every awaited database call may reject. A run is parameterised by the set of calls that
  raise when they are reached.
\<close>

datatype dbcall =
  Begin | FindByPk | FindOne | FindAll | Create | Destroy | Increment | Decrement | Commit

datatype exn = DbError dbcall

type_synonym faults = "dbcall set"

definition call :: "faults \<Rightarrow> dbcall \<Rightarrow> 'a \<Rightarrow> exn + 'a" where
  "call F c v = (if c \<in> F then Inl (DbError c) else Inr v)"

datatype payload =
    UserPayload UserData
  | ThemeRows "Theme list"
  | FavoriteThemeRows "(FavoriteTheme \<times> Theme option) list"
  | FavoritePluginRows "(FavoritePlugin \<times> Plugin option) list"
  | EmptyObject

text \<open>
  Modelled from the spec: the response helpers and the logger are not among the sources
  ("each returning a JSON success/error envelope with an HTTP status code"). A handler's
  output is the list of its calls to them, in order: \<open>Success s d m\<close> is the call
  \<^verbatim>\<open>sendSuccessResponse(res, s, d, m)\<close>, \<open>Error s m\<close> the call
  \<^verbatim>\<open>sendErrorResponse(res, s, m)\<close>, \<open>Log m e\<close> the call \<^verbatim>\<open>Logger.error(m, e)\<close>.
\<close>

datatype event =
    Success nat payload string
  | Error nat string
  | Log string exn

fun statusOf :: "event \<Rightarrow> nat option" where
  "statusOf (Success s d m) = Some s"
| "statusOf (Error s m) = Some s"
| "statusOf (Log m e) = None"

text \<open>The statuses of the responses a handler issued, in the order of the calls.\<close>

definition statuses :: "event list \<Rightarrow> nat list" where
  "statuses evs = List.map_filter statusOf evs"

section \<open>Table operations\<close>

text \<open>
  The calls the handlers make on the models, as functions on the tables. \<open>findByPk\<close> and
  \<open>findOne\<close> return the first matching row or nothing, \<open>create\<close> inserts a row,
  \<open>destroy\<close> deletes the row it is called on.
\<close>

definition findByPk :: "string \<Rightarrow> Theme list \<Rightarrow> Theme option" where
  "findByPk k rows = find (\<lambda>t. id' t = k) rows"

definition findOne :: "string \<Rightarrow> string \<Rightarrow> FavoriteTheme list \<Rightarrow> FavoriteTheme option" where
  "findOne u k rows = find (\<lambda>r. fav_userId r = u \<and> fav_id r = k) rows"

definition create :: "FavoriteTheme \<Rightarrow> FavoriteTheme list \<Rightarrow> FavoriteTheme list" where
  "create r rows = rows @ [r]"

definition destroy :: "FavoriteTheme \<Rightarrow> FavoriteTheme list \<Rightarrow> FavoriteTheme list" where
  "destroy r rows = remove1 r rows"

text \<open>
  \<^verbatim>\<open>instance.increment("favoritesCount", { by })\<close> updates the rows whose primary key is
  the instance's.
\<close>

definition increment :: "string \<Rightarrow> int \<Rightarrow> Theme list \<Rightarrow> Theme list" where
  "increment k by rows =
     map (\<lambda>t. if id' t = k then t\<lparr>favoritesCount := favoritesCount t + by\<rparr> else t) rows"

definition decrement :: "string \<Rightarrow> int \<Rightarrow> Theme list \<Rightarrow> Theme list" where
  "decrement k by rows =
     map (\<lambda>t. if id' t = k then t\<lparr>favoritesCount := favoritesCount t - by\<rparr> else t) rows"

text \<open>\<^verbatim>\<open>Theme.findAll({ where: { userId } })\<close>\<close>

definition findAllOwned :: "string \<Rightarrow> Theme list \<Rightarrow> Theme list" where
  "findAllOwned u rows = filter (\<lambda>t. userId t = u) rows"

text \<open>
  \<^verbatim>\<open>FavoriteTheme.findAll({ where: { userId }, include: [Theme] })\<close>: the user's join rows,
  each with the entity it refers to (none when the entity is gone).
\<close>

definition findAllFavorites ::
  "string \<Rightarrow> FavoriteTheme list \<Rightarrow> Theme list \<Rightarrow> (FavoriteTheme \<times> Theme option) list" where
  "findAllFavorites u favs rows =
     map (\<lambda>r. (r, findByPk (fav_id r) rows)) (filter (\<lambda>r. fav_userId r = u) favs)"

text \<open>
  \<^verbatim>\<open>sequelize.transaction(callback)\<close>, a managed transaction: the callback works on the
  state of the transaction; when it returns the transaction commits, when it raises (or the
  commit does) the transaction rolls back and the exception is raised again. Responses sent
  by the callback are not undone. The result is the events of the callback and either the
  exception or the committed state.
\<close>

definition transaction ::
  "faults \<Rightarrow> (Database \<Rightarrow> event list \<times> (exn + Database)) \<Rightarrow> Database
     \<Rightarrow> event list \<times> (exn + Database)" where
  "transaction F callback db =
     (if Begin \<in> F then ([], Inl (DbError Begin))
      else case callback db of
             (evs, Inl e) \<Rightarrow> (evs, Inl e)
           | (evs, Inr t) \<Rightarrow>
               if Commit \<in> F then (evs, Inl (DbError Commit)) else (evs, Inr t))"

section \<open>Fetch handlers\<close>

definition getUserProfile :: "(UserData \<Rightarrow> bool) \<Rightarrow> Request \<Rightarrow> event list" where
  "getUserProfile checkIsAdminUser req =
     (if (case query_userId req of None \<Rightarrow> True | Some q \<Rightarrow> q = [])
         \<or> query_userId req = session_userId req
         \<or> checkIsAdminUser (userData req)
      then [Success 200 (UserPayload (userData req)) ''User data fetched successfully.'']
      else [Error 403 ''Unauthorized access.''])"

definition getUserThemes ::
  "faults \<Rightarrow> (UserData \<Rightarrow> bool) \<Rightarrow> Request \<Rightarrow> Database \<Rightarrow> event list" where
  "getUserThemes F checkIsAdminUser req db =
     (if (case query_userId req of None \<Rightarrow> True | Some q \<Rightarrow> q = [])
         \<or> query_userId req = session_userId req
         \<or> checkIsAdminUser (userData req)
      then (case call F FindAll (findAllOwned (uid (userData req)) (themes db)) of
              Inr rows \<Rightarrow> [Success 200 (ThemeRows rows) ''User themes fetched successfully.'']
            | Inl e \<Rightarrow> [Error 403 ''Unauthorized access.''])
      else [Error 403 ''Unauthorized access.''])"

definition getUserFavoriteThemes ::
  "faults \<Rightarrow> (UserData \<Rightarrow> bool) \<Rightarrow> Request \<Rightarrow> Database \<Rightarrow> event list" where
  "getUserFavoriteThemes F checkIsAdminUser req db =
     (if (case query_userId req of None \<Rightarrow> True | Some q \<Rightarrow> q = [])
         \<or> query_userId req = session_userId req
         \<or> checkIsAdminUser (userData req)
      then (case call F FindAll
                   (findAllFavorites (uid (userData req)) (favoriteThemes db) (themes db)) of
              Inr rows \<Rightarrow>
                [Success 200 (FavoriteThemeRows rows) ''User favorite themes fetched successfully.'']
            | Inl e \<Rightarrow> [Error 403 ''Unauthorized access.''])
      else [Error 403 ''Unauthorized access.''])"

definition getUserFavoritePlugins ::
  "faults \<Rightarrow> (UserData \<Rightarrow> bool) \<Rightarrow> Request \<Rightarrow> Database \<Rightarrow> event list" where
  "getUserFavoritePlugins F checkIsAdminUser req db =
     (if (case query_userId req of None \<Rightarrow> True | Some q \<Rightarrow> q = [])
         \<or> query_userId req = session_userId req
         \<or> checkIsAdminUser (userData req)
      then (case call F FindAll
                   (findAllFavorites (uid (userData req)) (favoritePlugins db) (plugins db)) of
              Inr rows \<Rightarrow>
                [Success 200 (FavoritePluginRows rows) ''User favorite plugins fetched successfully.'']
            | Inl e \<Rightarrow> [Error 403 ''Unauthorized access.''])
      else [Error 403 ''Unauthorized access.''])"

section \<open>Favorite handlers\<close>

text \<open>
  Each handler is the callback passed to \<^verbatim>\<open>sequelize.transaction\<close> and the
  \<^verbatim>\<open>try\<close>/\<^verbatim>\<open>catch\<close> around it. A \<^verbatim>\<open>return sendErrorResponse(...)\<close> inside the callback
  returns from the callback only: the transaction then commits and the handler goes on to the
  statement after \<^verbatim>\<open>await sequelize.transaction(...)\<close>. A handler returns the database
  state it leaves and its events.
\<close>

definition addUserFavoriteTheme_callback ::
  "faults \<Rightarrow> Request \<Rightarrow> Database \<Rightarrow> event list \<times> (exn + Database)" where
  "addUserFavoriteTheme_callback F req t =
     (case call F FindByPk (findByPk (body_themeId req) (themes t)) of
        Inl e \<Rightarrow> ([], Inl e)
      | Inr None \<Rightarrow> ([Error 404 ''Theme not found.''], Inr t)
      | Inr (Some theme) \<Rightarrow>
          (case call F FindOne
                  (findOne (uid (userData req)) (body_themeId req) (favoriteThemes t)) of
             Inl e \<Rightarrow> ([], Inl e)
           | Inr (Some existingFavorite) \<Rightarrow> ([Error 400 ''Theme already favorited.''], Inr t)
           | Inr None \<Rightarrow>
               (case call F Create
                       (create \<lparr>fav_userId = uid (userData req), fav_id = body_themeId req\<rparr>
                          (favoriteThemes t)) of
                  Inl e \<Rightarrow> ([], Inl e)
                | Inr favs \<Rightarrow>
                    (case call F Increment (increment (id' theme) 1 (themes t)) of
                       Inl e \<Rightarrow> ([], Inl e)
                     | Inr rows \<Rightarrow> ([], Inr (t\<lparr>favoriteThemes := favs, themes := rows\<rparr>))))))"

definition addUserFavoriteTheme :: "faults \<Rightarrow> Request \<Rightarrow> Database \<Rightarrow> Database \<times> event list" where
  "addUserFavoriteTheme F req db =
     (case transaction F (addUserFavoriteTheme_callback F req) db of
        (evs, Inr db') \<Rightarrow>
          (db', evs @ [Success 201 EmptyObject ''Added theme to favorites successfully.''])
      | (evs, Inl e) \<Rightarrow>
          (db, evs @ [Log ''Error adding favorite theme:'' e,
                      Error 500 ''Failed to add favorite theme.'']))"

definition removeUserFavoriteTheme_callback ::
  "faults \<Rightarrow> Request \<Rightarrow> Database \<Rightarrow> event list \<times> (exn + Database)" where
  "removeUserFavoriteTheme_callback F req t =
     (case call F FindOne
             (findOne (uid (userData req)) (params_themeId req) (favoriteThemes t)) of
        Inl e \<Rightarrow> ([], Inl e)
      | Inr None \<Rightarrow> ([Error 404 ''Favorite theme not found.''], Inr t)
      | Inr (Some existingFavorite) \<Rightarrow>
          (case call F Destroy (destroy existingFavorite (favoriteThemes t)) of
             Inl e \<Rightarrow> ([], Inl e)
           | Inr favs \<Rightarrow>
               (case call F FindByPk (findByPk (params_themeId req) (themes t)) of
                  Inl e \<Rightarrow> ([], Inl e)
                | Inr None \<Rightarrow> ([], Inr (t\<lparr>favoriteThemes := favs\<rparr>))
                | Inr (Some theme) \<Rightarrow>
                    (case call F Decrement (decrement (id' theme) 1 (themes t)) of
                       Inl e \<Rightarrow> ([], Inl e)
                     | Inr rows \<Rightarrow> ([], Inr (t\<lparr>favoriteThemes := favs, themes := rows\<rparr>))))))"

definition removeUserFavoriteTheme ::
  "faults \<Rightarrow> Request \<Rightarrow> Database \<Rightarrow> Database \<times> event list" where
  "removeUserFavoriteTheme F req db =
     (case transaction F (removeUserFavoriteTheme_callback F req) db of
        (evs, Inr db') \<Rightarrow>
          (db', evs @ [Success 200 EmptyObject ''Removed theme from favorites successfully.''])
      | (evs, Inl e) \<Rightarrow>
          (db, evs @ [Log ''Error removing favorite theme:'' e,
                      Error 500 ''Failed to remove favorite theme.'']))"

definition addUserFavoritePlugin_callback ::
  "faults \<Rightarrow> Request \<Rightarrow> Database \<Rightarrow> event list \<times> (exn + Database)" where
  "addUserFavoritePlugin_callback F req t =
     (case call F FindByPk (findByPk (body_pluginId req) (plugins t)) of
        Inl e \<Rightarrow> ([], Inl e)
      | Inr None \<Rightarrow> ([Error 404 ''Plugin not found.''], Inr t)
      | Inr (Some plugin) \<Rightarrow>
          (case call F FindOne
                  (findOne (uid (userData req)) (body_pluginId req) (favoritePlugins t)) of
             Inl e \<Rightarrow> ([], Inl e)
           | Inr (Some existingFavorite) \<Rightarrow> ([Error 400 ''Plugin already favorited.''], Inr t)
           | Inr None \<Rightarrow>
               (case call F Create
                       (create \<lparr>fav_userId = uid (userData req), fav_id = body_pluginId req\<rparr>
                          (favoritePlugins t)) of
                  Inl e \<Rightarrow> ([], Inl e)
                | Inr favs \<Rightarrow>
                    (case call F Increment (increment (id' plugin) 1 (plugins t)) of
                       Inl e \<Rightarrow> ([], Inl e)
                     | Inr rows \<Rightarrow> ([], Inr (t\<lparr>favoritePlugins := favs, plugins := rows\<rparr>))))))"

definition addUserFavoritePlugin :: "faults \<Rightarrow> Request \<Rightarrow> Database \<Rightarrow> Database \<times> event list" where
  "addUserFavoritePlugin F req db =
     (case transaction F (addUserFavoritePlugin_callback F req) db of
        (evs, Inr db') \<Rightarrow>
          (db', evs @ [Success 201 EmptyObject ''Added plugin to favorites successfully.''])
      | (evs, Inl e) \<Rightarrow>
          (db, evs @ [Log ''Error adding favorite plugin:'' e,
                      Error 500 ''Failed to add favorite plugin.'']))"

definition removeUserFavoritePlugin_callback ::
  "faults \<Rightarrow> Request \<Rightarrow> Database \<Rightarrow> event list \<times> (exn + Database)" where
  "removeUserFavoritePlugin_callback F req t =
     (case call F FindOne
             (findOne (uid (userData req)) (params_pluginId req) (favoritePlugins t)) of
        Inl e \<Rightarrow> ([], Inl e)
      | Inr None \<Rightarrow> ([Error 404 ''Favorite plugin not found.''], Inr t)
      | Inr (Some existingFavorite) \<Rightarrow>
          (case call F Destroy (destroy existingFavorite (favoritePlugins t)) of
             Inl e \<Rightarrow> ([], Inl e)
           | Inr favs \<Rightarrow>
               (case call F FindByPk (findByPk (params_pluginId req) (plugins t)) of
                  Inl e \<Rightarrow> ([], Inl e)
                | Inr None \<Rightarrow> ([], Inr (t\<lparr>favoritePlugins := favs\<rparr>))
                | Inr (Some plugin) \<Rightarrow>
                    (case call F Decrement (decrement (id' plugin) 1 (plugins t)) of
                       Inl e \<Rightarrow> ([], Inl e)
                     | Inr rows \<Rightarrow> ([], Inr (t\<lparr>favoritePlugins := favs, plugins := rows\<rparr>))))))"

definition removeUserFavoritePlugin ::
  "faults \<Rightarrow> Request \<Rightarrow> Database \<Rightarrow> Database \<times> event list" where
  "removeUserFavoritePlugin F req db =
     (case transaction F (removeUserFavoritePlugin_callback F req) db of
        (evs, Inr db') \<Rightarrow>
          (db', evs @ [Success 200 EmptyObject ''Removed plugin from favorites successfully.''])
      | (evs, Inl e) \<Rightarrow>
          (db, evs @ [Log ''Error removing favorite plugin:'' e,
                      Error 500 ''Failed to remove favorite plugin.'']))"

section \<open>Properties to state\<close>

text \<open>
  The invariant of the data model: the counter of every theme (plugin) row is the number of
  join rows that refer to it.
\<close>

definition favoritesConsistent :: "Database \<Rightarrow> bool" where
  "favoritesConsistent db \<longleftrightarrow>
     (\<forall>t \<in> set (themes db).
        favoritesCount t = int (length (filter (\<lambda>r. fav_id r = id' t) (favoriteThemes db))))
     \<and> (\<forall>p \<in> set (plugins db).
        favoritesCount p = int (length (filter (\<lambda>r. fav_id r = id' p) (favoritePlugins db))))"

text \<open>The test every fetch handler makes before it answers with data.\<close>

definition authorized :: "(UserData \<Rightarrow> bool) \<Rightarrow> Request \<Rightarrow> bool" where
  "authorized checkIsAdminUser req \<longleftrightarrow>
     (case query_userId req of None \<Rightarrow> True | Some q \<Rightarrow> q = [])
     \<or> query_userId req = session_userId req
     \<or> checkIsAdminUser (userData req)"

text \<open>The invariant for one table and its join table.\<close>

definition counted :: "Theme list \<Rightarrow> FavoriteTheme list \<Rightarrow> bool" where
  "counted rows favs \<longleftrightarrow>
     (\<forall>t \<in> set rows. favoritesCount t = int (length (filter (\<lambda>r. fav_id r = id' t) favs)))"

section \<open>Sample data\<close>

text \<open>
  Users, a request builder and two database states for the concrete runs below: in \<open>dbFav\<close>
  the user alice has one favorite theme and one favorite plugin, and the counters agree; in
  \<open>dbOrphan\<close> her join rows refer to entities that no longer exist.
\<close>

definition alice :: UserData where
  "alice = \<lparr>uid = ''alice''\<rparr>"

definition bob :: UserData where
  "bob = \<lparr>uid = ''bob''\<rparr>"

definition root :: UserData where
  "root = \<lparr>uid = ''root''\<rparr>"

definition onlyRoot :: "UserData \<Rightarrow> bool" where
  "onlyRoot u = (uid u = ''root'')"

definition dbFav :: Database where
  "dbFav =
     \<lparr>themes = [\<lparr>id' = ''t1'', name = ''Solar'', description = ''light'', favoritesCount = 1,
                  versionsCount = 1, userId = ''bob''\<rparr>],
      favoriteThemes = [\<lparr>fav_userId = ''alice'', fav_id = ''t1''\<rparr>],
      plugins = [\<lparr>id' = ''p1'', name = ''Markdown'', description = ''render'', favoritesCount = 1,
                   versionsCount = 2, userId = ''bob''\<rparr>],
      favoritePlugins = [\<lparr>fav_userId = ''alice'', fav_id = ''p1''\<rparr>]\<rparr>"

definition dbOrphan :: Database where
  "dbOrphan =
     \<lparr>themes = [], favoriteThemes = [\<lparr>fav_userId = ''alice'', fav_id = ''t1''\<rparr>],
      plugins = [], favoritePlugins = [\<lparr>fav_userId = ''alice'', fav_id = ''p1''\<rparr>]\<rparr>"

definition request :: "UserData \<Rightarrow> string option \<Rightarrow> string \<Rightarrow> string \<Rightarrow> Request" where
  "request u q themeId pluginId =
     \<lparr>userData = u, query_userId = q, session_userId = Some (uid u),
      body_themeId = themeId, params_themeId = themeId,
      body_pluginId = pluginId, params_pluginId = pluginId\<rparr>"

section \<open>Lemmas on the table operations and the transaction\<close>

lemma find_SomeD: "find P xs = Some x \<Longrightarrow> x \<in> set xs \<and> P x"
  by (induction xs) (auto split: if_splits)

lemma findByPk_id: "findByPk k rows = Some t \<Longrightarrow> id' t = k"
  unfolding findByPk_def by (drule find_SomeD) simp

lemma findOne_row:
  "findOne u k rows = Some r \<Longrightarrow> r \<in> set rows \<and> fav_userId r = u \<and> fav_id r = k"
  unfolding findOne_def by (drule find_SomeD) simp

lemma count_remove1:
  "r \<in> set rows \<Longrightarrow>
   int (length (filter P (remove1 r rows))) = int (length (filter P rows)) - (if P r then 1 else 0)"
  by (induction rows) auto

lemma count_create:
  "int (length (filter P (create r rows))) = int (length (filter P rows)) + (if P r then 1 else 0)"
  by (simp add: create_def)

lemma counted_add:
  "counted rows favs \<Longrightarrow> counted (increment k 1 rows) (create \<lparr>fav_userId = u, fav_id = k\<rparr> favs)"
  unfolding counted_def increment_def by (auto simp: count_create)

lemma counted_remove:
  "counted rows favs \<Longrightarrow> r \<in> set favs \<Longrightarrow> fav_id r = k \<Longrightarrow>
   counted (decrement k 1 rows) (destroy r favs)"
  unfolding counted_def decrement_def destroy_def by (auto simp: count_remove1)

lemma inv_counted:
  "favoritesConsistent db \<longleftrightarrow>
     counted (themes db) (favoriteThemes db) \<and> counted (plugins db) (favoritePlugins db)"
  by (simp add: favoritesConsistent_def counted_def)

lemma decrement_absent: "findByPk k rows = None \<Longrightarrow> decrement k by rows = rows"
  by (simp add: findByPk_def decrement_def find_None_iff map_idI)

lemma transaction_Inr:
  "transaction F cb db = (evs, Inr t) \<Longrightarrow> cb db = (evs, Inr t)"
  by (simp add: transaction_def split: if_splits prod.splits sum.splits)

lemma transaction_Inl:
  "transaction F cb db = (evs, Inl e) \<Longrightarrow>
     (evs = [] \<and> Begin \<in> F) \<or> cb db = (evs, Inl e) \<or> (\<exists>t. cb db = (evs, Inr t))"
  by (simp add: transaction_def split: if_splits prod.splits sum.splits)

lemma addUserFavoriteTheme_callback_Inr:
  assumes "addUserFavoriteTheme_callback F req t = (evs, Inr t')"
  shows "(t' = t \<and> evs = [Error 404 ''Theme not found.''])
       \<or> (t' = t \<and> evs = [Error 400 ''Theme already favorited.''])
       \<or> (evs = [] \<and> t' = t\<lparr>favoriteThemes :=
              create \<lparr>fav_userId = uid (userData req), fav_id = body_themeId req\<rparr> (favoriteThemes t),
            themes := increment (body_themeId req) 1 (themes t)\<rparr>)"
proof (cases "findByPk (body_themeId req) (themes t)")
  case None
  with assms show ?thesis
    by (simp add: addUserFavoriteTheme_callback_def call_def split: if_splits)
next
  case (Some theme)
  note found = this
  have k: "id' theme = body_themeId req" using found by (rule findByPk_id)
  show ?thesis
  proof (cases "findOne (uid (userData req)) (body_themeId req) (favoriteThemes t)")
    case None
    with assms found k show ?thesis
      by (simp add: addUserFavoriteTheme_callback_def call_def split: if_splits)
  next
    case (Some existing)
    with assms found show ?thesis
      by (simp add: addUserFavoriteTheme_callback_def call_def split: if_splits)
  qed
qed

lemma addUserFavoriteTheme_callback_Inl:
  assumes "addUserFavoriteTheme_callback F req t = (evs, Inl e)"
  shows "evs = []"
proof (cases "findByPk (body_themeId req) (themes t)")
  case None
  with assms show ?thesis
    by (simp add: addUserFavoriteTheme_callback_def call_def split: if_splits)
next
  case (Some theme)
  note found = this
  show ?thesis
  proof (cases "findOne (uid (userData req)) (body_themeId req) (favoriteThemes t)")
    case None
    with assms found show ?thesis
      by (simp add: addUserFavoriteTheme_callback_def call_def split: if_splits)
  next
    case (Some existing)
    with assms found show ?thesis
      by (simp add: addUserFavoriteTheme_callback_def call_def split: if_splits)
  qed
qed

lemma removeUserFavoriteTheme_callback_Inr:
  assumes "removeUserFavoriteTheme_callback F req t = (evs, Inr t')"
  shows "(t' = t \<and> evs = [Error 404 ''Favorite theme not found.''])
       \<or> (evs = [] \<and> (\<exists>r. findOne (uid (userData req)) (params_themeId req) (favoriteThemes t) = Some r
             \<and> t' = t\<lparr>favoriteThemes := destroy r (favoriteThemes t),
                      themes := decrement (params_themeId req) 1 (themes t)\<rparr>))"
proof (cases "findOne (uid (userData req)) (params_themeId req) (favoriteThemes t)")
  case None
  with assms show ?thesis
    by (simp add: removeUserFavoriteTheme_callback_def call_def split: if_splits)
next
  case (Some existing)
  note row = this
  show ?thesis
  proof (cases "findByPk (params_themeId req) (themes t)")
    case None
    with assms row show ?thesis
      by (simp add: removeUserFavoriteTheme_callback_def call_def decrement_absent
          split: if_splits)
  next
    case (Some theme)
    note found = this
    have k: "id' theme = params_themeId req" using found by (rule findByPk_id)
    with assms row found show ?thesis
      by (simp add: removeUserFavoriteTheme_callback_def call_def split: if_splits)
  qed
qed

lemma removeUserFavoriteTheme_callback_Inl:
  assumes "removeUserFavoriteTheme_callback F req t = (evs, Inl e)"
  shows "evs = []"
proof (cases "findOne (uid (userData req)) (params_themeId req) (favoriteThemes t)")
  case None
  with assms show ?thesis
    by (simp add: removeUserFavoriteTheme_callback_def call_def split: if_splits)
next
  case (Some existing)
  note row = this
  show ?thesis
  proof (cases "findByPk (params_themeId req) (themes t)")
    case None
    with assms row show ?thesis
      by (simp add: removeUserFavoriteTheme_callback_def call_def split: if_splits)
  next
    case (Some theme)
    with assms row show ?thesis
      by (simp add: removeUserFavoriteTheme_callback_def call_def split: if_splits)
  qed
qed

lemma addUserFavoritePlugin_callback_Inr:
  assumes "addUserFavoritePlugin_callback F req t = (evs, Inr t')"
  shows "(t' = t \<and> evs = [Error 404 ''Plugin not found.''])
       \<or> (t' = t \<and> evs = [Error 400 ''Plugin already favorited.''])
       \<or> (evs = [] \<and> t' = t\<lparr>favoritePlugins :=
              create \<lparr>fav_userId = uid (userData req), fav_id = body_pluginId req\<rparr> (favoritePlugins t),
            plugins := increment (body_pluginId req) 1 (plugins t)\<rparr>)"
proof (cases "findByPk (body_pluginId req) (plugins t)")
  case None
  with assms show ?thesis
    by (simp add: addUserFavoritePlugin_callback_def call_def split: if_splits)
next
  case (Some plugin)
  note found = this
  have k: "id' plugin = body_pluginId req" using found by (rule findByPk_id)
  show ?thesis
  proof (cases "findOne (uid (userData req)) (body_pluginId req) (favoritePlugins t)")
    case None
    with assms found k show ?thesis
      by (simp add: addUserFavoritePlugin_callback_def call_def split: if_splits)
  next
    case (Some existing)
    with assms found show ?thesis
      by (simp add: addUserFavoritePlugin_callback_def call_def split: if_splits)
  qed
qed

lemma addUserFavoritePlugin_callback_Inl:
  assumes "addUserFavoritePlugin_callback F req t = (evs, Inl e)"
  shows "evs = []"
proof (cases "findByPk (body_pluginId req) (plugins t)")
  case None
  with assms show ?thesis
    by (simp add: addUserFavoritePlugin_callback_def call_def split: if_splits)
next
  case (Some plugin)
  note found = this
  show ?thesis
  proof (cases "findOne (uid (userData req)) (body_pluginId req) (favoritePlugins t)")
    case None
    with assms found show ?thesis
      by (simp add: addUserFavoritePlugin_callback_def call_def split: if_splits)
  next
    case (Some existing)
    with assms found show ?thesis
      by (simp add: addUserFavoritePlugin_callback_def call_def split: if_splits)
  qed
qed

lemma removeUserFavoritePlugin_callback_Inr:
  assumes "removeUserFavoritePlugin_callback F req t = (evs, Inr t')"
  shows "(t' = t \<and> evs = [Error 404 ''Favorite plugin not found.''])
       \<or> (evs = [] \<and> (\<exists>r. findOne (uid (userData req)) (params_pluginId req) (favoritePlugins t) = Some r
             \<and> t' = t\<lparr>favoritePlugins := destroy r (favoritePlugins t),
                      plugins := decrement (params_pluginId req) 1 (plugins t)\<rparr>))"
proof (cases "findOne (uid (userData req)) (params_pluginId req) (favoritePlugins t)")
  case None
  with assms show ?thesis
    by (simp add: removeUserFavoritePlugin_callback_def call_def split: if_splits)
next
  case (Some existing)
  note row = this
  show ?thesis
  proof (cases "findByPk (params_pluginId req) (plugins t)")
    case None
    with assms row show ?thesis
      by (simp add: removeUserFavoritePlugin_callback_def call_def decrement_absent
          split: if_splits)
  next
    case (Some plugin)
    note found = this
    have k: "id' plugin = params_pluginId req" using found by (rule findByPk_id)
    with assms row found show ?thesis
      by (simp add: removeUserFavoritePlugin_callback_def call_def split: if_splits)
  qed
qed

lemma removeUserFavoritePlugin_callback_Inl:
  assumes "removeUserFavoritePlugin_callback F req t = (evs, Inl e)"
  shows "evs = []"
proof (cases "findOne (uid (userData req)) (params_pluginId req) (favoritePlugins t)")
  case None
  with assms show ?thesis
    by (simp add: removeUserFavoritePlugin_callback_def call_def split: if_splits)
next
  case (Some existing)
  note row = this
  show ?thesis
  proof (cases "findByPk (params_pluginId req) (plugins t)")
    case None
    with assms row show ?thesis
      by (simp add: removeUserFavoritePlugin_callback_def call_def split: if_splits)
  next
    case (Some plugin)
    with assms row show ?thesis
      by (simp add: removeUserFavoritePlugin_callback_def call_def split: if_splits)
  qed
qed

lemma addUserFavoriteTheme_shape:
  "(\<exists>pre e. (pre = [] \<or> pre = [Error 404 ''Theme not found.'']
                 \<or> pre = [Error 400 ''Theme already favorited.''])
       \<and> addUserFavoriteTheme F req db =
           (db, pre @ [Log ''Error adding favorite theme:'' e,
                       Error 500 ''Failed to add favorite theme.'']))
   \<or> addUserFavoriteTheme F req db =
        (db, [Error 404 ''Theme not found.'',
              Success 201 EmptyObject ''Added theme to favorites successfully.''])
   \<or> addUserFavoriteTheme F req db =
        (db, [Error 400 ''Theme already favorited.'',
              Success 201 EmptyObject ''Added theme to favorites successfully.''])
   \<or> addUserFavoriteTheme F req db =
        (db\<lparr>favoriteThemes :=
              create \<lparr>fav_userId = uid (userData req), fav_id = body_themeId req\<rparr> (favoriteThemes db),
            themes := increment (body_themeId req) 1 (themes db)\<rparr>,
         [Success 201 EmptyObject ''Added theme to favorites successfully.''])"
proof -
  obtain evs r where tx: "transaction F (addUserFavoriteTheme_callback F req) db = (evs, r)"
    by (cases "transaction F (addUserFavoriteTheme_callback F req) db") blast
  show ?thesis
  proof (cases r)
    case (Inl e)
    with tx have txe: "transaction F (addUserFavoriteTheme_callback F req) db = (evs, Inl e)"
      by simp
    have pre: "evs = [] \<or> evs = [Error 404 ''Theme not found.'']
               \<or> evs = [Error 400 ''Theme already favorited.'']"
      using transaction_Inl [OF txe] addUserFavoriteTheme_callback_Inl [of F req db evs e]
        addUserFavoriteTheme_callback_Inr [of F req db evs]
      by blast
    have "addUserFavoriteTheme F req db =
           (db, evs @ [Log ''Error adding favorite theme:'' e,
                       Error 500 ''Failed to add favorite theme.''])"
      by (simp add: addUserFavoriteTheme_def txe)
    with pre show ?thesis by blast
  next
    case (Inr t)
    with tx have txr: "transaction F (addUserFavoriteTheme_callback F req) db = (evs, Inr t)"
      by simp
    have res: "addUserFavoriteTheme F req db =
           (t, evs @ [Success 201 EmptyObject ''Added theme to favorites successfully.''])"
      by (simp add: addUserFavoriteTheme_def txr)
    from addUserFavoriteTheme_callback_Inr [OF transaction_Inr [OF txr]] res
    show ?thesis by auto
  qed
qed

lemma removeUserFavoriteTheme_shape:
  "(\<exists>pre e. (pre = [] \<or> pre = [Error 404 ''Favorite theme not found.''])
       \<and> removeUserFavoriteTheme F req db =
           (db, pre @ [Log ''Error removing favorite theme:'' e,
                       Error 500 ''Failed to remove favorite theme.'']))
   \<or> removeUserFavoriteTheme F req db =
        (db, [Error 404 ''Favorite theme not found.'',
              Success 200 EmptyObject ''Removed theme from favorites successfully.''])
   \<or> (\<exists>r. findOne (uid (userData req)) (params_themeId req) (favoriteThemes db) = Some r
        \<and> removeUserFavoriteTheme F req db =
           (db\<lparr>favoriteThemes := destroy r (favoriteThemes db),
               themes := decrement (params_themeId req) 1 (themes db)\<rparr>,
            [Success 200 EmptyObject ''Removed theme from favorites successfully.'']))"
proof -
  obtain evs r where tx: "transaction F (removeUserFavoriteTheme_callback F req) db = (evs, r)"
    by (cases "transaction F (removeUserFavoriteTheme_callback F req) db") blast
  show ?thesis
  proof (cases r)
    case (Inl e)
    with tx have txe: "transaction F (removeUserFavoriteTheme_callback F req) db = (evs, Inl e)"
      by simp
    have pre: "evs = [] \<or> evs = [Error 404 ''Favorite theme not found.'']"
      using transaction_Inl [OF txe] removeUserFavoriteTheme_callback_Inl [of F req db evs e]
        removeUserFavoriteTheme_callback_Inr [of F req db evs]
      by blast
    have "removeUserFavoriteTheme F req db =
           (db, evs @ [Log ''Error removing favorite theme:'' e,
                       Error 500 ''Failed to remove favorite theme.''])"
      by (simp add: removeUserFavoriteTheme_def txe)
    with pre show ?thesis by blast
  next
    case (Inr t)
    with tx have txr: "transaction F (removeUserFavoriteTheme_callback F req) db = (evs, Inr t)"
      by simp
    have res: "removeUserFavoriteTheme F req db =
           (t, evs @ [Success 200 EmptyObject ''Removed theme from favorites successfully.''])"
      by (simp add: removeUserFavoriteTheme_def txr)
    from removeUserFavoriteTheme_callback_Inr [OF transaction_Inr [OF txr]] res
    show ?thesis by auto
  qed
qed

lemma addUserFavoritePlugin_shape:
  "(\<exists>pre e. (pre = [] \<or> pre = [Error 404 ''Plugin not found.'']
                 \<or> pre = [Error 400 ''Plugin already favorited.''])
       \<and> addUserFavoritePlugin F req db =
           (db, pre @ [Log ''Error adding favorite plugin:'' e,
                       Error 500 ''Failed to add favorite plugin.'']))
   \<or> addUserFavoritePlugin F req db =
        (db, [Error 404 ''Plugin not found.'',
              Success 201 EmptyObject ''Added plugin to favorites successfully.''])
   \<or> addUserFavoritePlugin F req db =
        (db, [Error 400 ''Plugin already favorited.'',
              Success 201 EmptyObject ''Added plugin to favorites successfully.''])
   \<or> addUserFavoritePlugin F req db =
        (db\<lparr>favoritePlugins :=
              create \<lparr>fav_userId = uid (userData req), fav_id = body_pluginId req\<rparr> (favoritePlugins db),
            plugins := increment (body_pluginId req) 1 (plugins db)\<rparr>,
         [Success 201 EmptyObject ''Added plugin to favorites successfully.''])"
proof -
  obtain evs r where tx: "transaction F (addUserFavoritePlugin_callback F req) db = (evs, r)"
    by (cases "transaction F (addUserFavoritePlugin_callback F req) db") blast
  show ?thesis
  proof (cases r)
    case (Inl e)
    with tx have txe: "transaction F (addUserFavoritePlugin_callback F req) db = (evs, Inl e)"
      by simp
    have pre: "evs = [] \<or> evs = [Error 404 ''Plugin not found.'']
               \<or> evs = [Error 400 ''Plugin already favorited.'']"
      using transaction_Inl [OF txe] addUserFavoritePlugin_callback_Inl [of F req db evs e]
        addUserFavoritePlugin_callback_Inr [of F req db evs]
      by blast
    have "addUserFavoritePlugin F req db =
           (db, evs @ [Log ''Error adding favorite plugin:'' e,
                       Error 500 ''Failed to add favorite plugin.''])"
      by (simp add: addUserFavoritePlugin_def txe)
    with pre show ?thesis by blast
  next
    case (Inr t)
    with tx have txr: "transaction F (addUserFavoritePlugin_callback F req) db = (evs, Inr t)"
      by simp
    have res: "addUserFavoritePlugin F req db =
           (t, evs @ [Success 201 EmptyObject ''Added plugin to favorites successfully.''])"
      by (simp add: addUserFavoritePlugin_def txr)
    from addUserFavoritePlugin_callback_Inr [OF transaction_Inr [OF txr]] res
    show ?thesis by auto
  qed
qed

lemma removeUserFavoritePlugin_shape:
  "(\<exists>pre e. (pre = [] \<or> pre = [Error 404 ''Favorite plugin not found.''])
       \<and> removeUserFavoritePlugin F req db =
           (db, pre @ [Log ''Error removing favorite plugin:'' e,
                       Error 500 ''Failed to remove favorite plugin.'']))
   \<or> removeUserFavoritePlugin F req db =
        (db, [Error 404 ''Favorite plugin not found.'',
              Success 200 EmptyObject ''Removed plugin from favorites successfully.''])
   \<or> (\<exists>r. findOne (uid (userData req)) (params_pluginId req) (favoritePlugins db) = Some r
        \<and> removeUserFavoritePlugin F req db =
           (db\<lparr>favoritePlugins := destroy r (favoritePlugins db),
               plugins := decrement (params_pluginId req) 1 (plugins db)\<rparr>,
            [Success 200 EmptyObject ''Removed plugin from favorites successfully.'']))"
proof -
  obtain evs r where tx: "transaction F (removeUserFavoritePlugin_callback F req) db = (evs, r)"
    by (cases "transaction F (removeUserFavoritePlugin_callback F req) db") blast
  show ?thesis
  proof (cases r)
    case (Inl e)
    with tx have txe: "transaction F (removeUserFavoritePlugin_callback F req) db = (evs, Inl e)"
      by simp
    have pre: "evs = [] \<or> evs = [Error 404 ''Favorite plugin not found.'']"
      using transaction_Inl [OF txe] removeUserFavoritePlugin_callback_Inl [of F req db evs e]
        removeUserFavoritePlugin_callback_Inr [of F req db evs]
      by blast
    have "removeUserFavoritePlugin F req db =
           (db, evs @ [Log ''Error removing favorite plugin:'' e,
                       Error 500 ''Failed to remove favorite plugin.''])"
      by (simp add: removeUserFavoritePlugin_def txe)
    with pre show ?thesis by blast
  next
    case (Inr t)
    with tx have txr: "transaction F (removeUserFavoritePlugin_callback F req) db = (evs, Inr t)"
      by simp
    have res: "removeUserFavoritePlugin F req db =
           (t, evs @ [Success 200 EmptyObject ''Removed plugin from favorites successfully.''])"
      by (simp add: removeUserFavoritePlugin_def txr)
    from removeUserFavoritePlugin_callback_Inr [OF transaction_Inr [OF txr]] res
    show ?thesis by auto
  qed
qed

section \<open>The counter invariant\<close>

lemma dbFav_consistent: "favoritesConsistent dbFav"
  by (simp add: favoritesConsistent_def dbFav_def)

text \<open>
  C1. For every theme and plugin row, \<open>favoritesCount\<close> equals the number of rows of the join
  table that refer to it: from any state where this holds, each of the four add and remove
  handlers leaves a state where it holds, whatever the request and whichever database calls
  raise.
\<close>

theorem favoritesCount_invariant_preserved:
  assumes "favoritesConsistent db"
  shows "favoritesConsistent (fst (addUserFavoriteTheme F req db))
       \<and> favoritesConsistent (fst (removeUserFavoriteTheme F req db))
       \<and> favoritesConsistent (fst (addUserFavoritePlugin F req db))
       \<and> favoritesConsistent (fst (removeUserFavoritePlugin F req db))"
proof -
  from assms have th: "counted (themes db) (favoriteThemes db)"
    and pl: "counted (plugins db) (favoritePlugins db)"
    by (simp_all add: inv_counted)
  have "favoritesConsistent (fst (addUserFavoriteTheme F req db))"
    using addUserFavoriteTheme_shape [of F req db] assms th pl
    by (auto simp: inv_counted counted_add)
  moreover have "favoritesConsistent (fst (removeUserFavoriteTheme F req db))"
    using removeUserFavoriteTheme_shape [of F req db] assms th pl
    by (auto simp: inv_counted counted_remove dest!: findOne_row)
  moreover have "favoritesConsistent (fst (addUserFavoritePlugin F req db))"
    using addUserFavoritePlugin_shape [of F req db] assms th pl
    by (auto simp: inv_counted counted_add)
  moreover have "favoritesConsistent (fst (removeUserFavoritePlugin F req db))"
    using removeUserFavoritePlugin_shape [of F req db] assms th pl
    by (auto simp: inv_counted counted_remove dest!: findOne_row)
  ultimately show ?thesis by blast
qed

theorem favoritesCount_invariant_preserved_witness:
  "favoritesConsistent dbFav
   \<and> favoritesConsistent (fst (addUserFavoriteTheme {} (request bob None ''t1'' ''p1'') dbFav))
   \<and> favoritesConsistent (fst (removeUserFavoriteTheme {} (request alice None ''t1'' ''p1'') dbFav))
   \<and> favoritesConsistent (fst (addUserFavoritePlugin {} (request bob None ''t1'' ''p1'') dbFav))
   \<and> favoritesConsistent (fst (removeUserFavoritePlugin {} (request alice None ''t1'' ''p1'') dbFav))
   \<and> fst (addUserFavoriteTheme {} (request bob None ''t1'' ''p1'') dbFav) \<noteq> dbFav
   \<and> fst (removeUserFavoriteTheme {} (request alice None ''t1'' ''p1'') dbFav) \<noteq> dbFav"
proof -
  have ne1: "fst (addUserFavoriteTheme {} (request bob None ''t1'' ''p1'') dbFav) \<noteq> dbFav"
    by (simp add: addUserFavoriteTheme_def transaction_def addUserFavoriteTheme_callback_def
        call_def findByPk_def findOne_def create_def increment_def request_def bob_def dbFav_def)
  have ne2: "fst (removeUserFavoriteTheme {} (request alice None ''t1'' ''p1'') dbFav) \<noteq> dbFav"
    by (simp add: removeUserFavoriteTheme_def transaction_def removeUserFavoriteTheme_callback_def
        call_def findByPk_def findOne_def destroy_def decrement_def request_def alice_def dbFav_def)
  show ?thesis
    using favoritesCount_invariant_preserved [OF dbFav_consistent, of "{}" "request bob None ''t1'' ''p1''"]
      favoritesCount_invariant_preserved [OF dbFav_consistent, of "{}" "request alice None ''t1'' ''p1''"]
      dbFav_consistent ne1 ne2
    by blast
qed

section \<open>The fetch handlers\<close>

text \<open>Each fetch handler, in terms of the test it makes and of whether the query raises.\<close>

lemma getUserProfile_authorized:
  "getUserProfile c req =
     (if authorized c req
      then [Success 200 (UserPayload (userData req)) ''User data fetched successfully.'']
      else [Error 403 ''Unauthorized access.''])"
  by (simp add: getUserProfile_def authorized_def)

lemma getUserThemes_authorized:
  "getUserThemes F c req db =
     (if authorized c req \<and> FindAll \<notin> F
      then [Success 200 (ThemeRows (findAllOwned (uid (userData req)) (themes db)))
              ''User themes fetched successfully.'']
      else [Error 403 ''Unauthorized access.''])"
  by (simp add: getUserThemes_def authorized_def call_def)

lemma getUserFavoriteThemes_authorized:
  "getUserFavoriteThemes F c req db =
     (if authorized c req \<and> FindAll \<notin> F
      then [Success 200
              (FavoriteThemeRows
                 (findAllFavorites (uid (userData req)) (favoriteThemes db) (themes db)))
              ''User favorite themes fetched successfully.'']
      else [Error 403 ''Unauthorized access.''])"
  by (simp add: getUserFavoriteThemes_def authorized_def call_def)

lemma getUserFavoritePlugins_authorized:
  "getUserFavoritePlugins F c req db =
     (if authorized c req \<and> FindAll \<notin> F
      then [Success 200
              (FavoritePluginRows
                 (findAllFavorites (uid (userData req)) (favoritePlugins db) (plugins db)))
              ''User favorite plugins fetched successfully.'']
      else [Error 403 ''Unauthorized access.''])"
  by (simp add: getUserFavoritePlugins_def authorized_def call_def)

lemmas fetch_authorized =
  getUserProfile_authorized getUserThemes_authorized getUserFavoriteThemes_authorized
  getUserFavoritePlugins_authorized

text \<open>
  C6. When the query's \<open>userId\<close> is present (a non-empty string), differs from the session's
  \<open>userId\<close>, and the requesting user is not an admin, each of the four fetch handlers answers
  with the single response 403 "Unauthorized access.", which carries no data.
\<close>

theorem other_user_forbidden:
  assumes "query_userId req = Some q" and "q \<noteq> []"
    and "session_userId req \<noteq> Some q"
    and "\<not> checkIsAdminUser (userData req)"
  shows "getUserProfile checkIsAdminUser req = [Error 403 ''Unauthorized access.'']
       \<and> getUserThemes F checkIsAdminUser req db = [Error 403 ''Unauthorized access.'']
       \<and> getUserFavoriteThemes F checkIsAdminUser req db = [Error 403 ''Unauthorized access.'']
       \<and> getUserFavoritePlugins F checkIsAdminUser req db = [Error 403 ''Unauthorized access.'']"
proof -
  from assms have "\<not> authorized checkIsAdminUser req"
    by (auto simp: authorized_def)
  then show ?thesis
    by (simp add: fetch_authorized)
qed

theorem other_user_forbidden_witness:
  "query_userId (request bob (Some ''alice'') ''t1'' ''p1'') = Some ''alice''
   \<and> ''alice'' \<noteq> []
   \<and> session_userId (request bob (Some ''alice'') ''t1'' ''p1'') \<noteq> Some ''alice''
   \<and> \<not> onlyRoot (userData (request bob (Some ''alice'') ''t1'' ''p1''))
   \<and> getUserProfile onlyRoot (request bob (Some ''alice'') ''t1'' ''p1'')
       = [Error 403 ''Unauthorized access.'']
   \<and> getUserThemes {} onlyRoot (request bob (Some ''alice'') ''t1'' ''p1'') dbFav
       = [Error 403 ''Unauthorized access.'']
   \<and> getUserFavoriteThemes {} onlyRoot (request bob (Some ''alice'') ''t1'' ''p1'') dbFav
       = [Error 403 ''Unauthorized access.'']
   \<and> getUserFavoritePlugins {} onlyRoot (request bob (Some ''alice'') ''t1'' ''p1'') dbFav
       = [Error 403 ''Unauthorized access.'']"
proof -
  have h1: "query_userId (request bob (Some ''alice'') ''t1'' ''p1'') = Some ''alice''"
    by (simp add: request_def)
  have h2: "''alice'' \<noteq> []" by simp
  have h3: "session_userId (request bob (Some ''alice'') ''t1'' ''p1'') \<noteq> Some ''alice''"
    by (simp add: request_def bob_def)
  have h4: "\<not> onlyRoot (userData (request bob (Some ''alice'') ''t1'' ''p1''))"
    by (simp add: request_def bob_def onlyRoot_def)
  show ?thesis
    using other_user_forbidden [where req = "request bob (Some ''alice'') ''t1'' ''p1''"
        and q = "''alice''" and checkIsAdminUser = onlyRoot and F = "{}" and db = dbFav,
        OF h1 h2 h3 h4] h1 h2 h3 h4
    by blast
qed

text \<open>
  C8. When the query's \<open>userId\<close> is absent or empty, each fetch handler answers 200 with the
  data, for any user, admin or not and whatever the session's \<open>userId\<close>, provided the query
  of the database does not raise; no 403 is issued.
\<close>

theorem no_query_userId_succeeds:
  assumes "query_userId req = None \<or> query_userId req = Some []"
    and "FindAll \<notin> F"
  shows "getUserProfile checkIsAdminUser req =
           [Success 200 (UserPayload (userData req)) ''User data fetched successfully.'']
       \<and> getUserThemes F checkIsAdminUser req db =
           [Success 200 (ThemeRows (findAllOwned (uid (userData req)) (themes db)))
              ''User themes fetched successfully.'']
       \<and> getUserFavoriteThemes F checkIsAdminUser req db =
           [Success 200
              (FavoriteThemeRows
                 (findAllFavorites (uid (userData req)) (favoriteThemes db) (themes db)))
              ''User favorite themes fetched successfully.'']
       \<and> getUserFavoritePlugins F checkIsAdminUser req db =
           [Success 200
              (FavoritePluginRows
                 (findAllFavorites (uid (userData req)) (favoritePlugins db) (plugins db)))
              ''User favorite plugins fetched successfully.'']"
proof -
  from assms(1) have "authorized checkIsAdminUser req"
    by (auto simp: authorized_def)
  with assms(2) show ?thesis
    by (simp add: fetch_authorized)
qed

theorem no_query_userId_succeeds_witness:
  "query_userId (request bob None ''t1'' ''p1'') = None
   \<and> FindAll \<notin> {Commit}
   \<and> \<not> onlyRoot bob
   \<and> getUserProfile onlyRoot (request bob None ''t1'' ''p1'') =
        [Success 200 (UserPayload bob) ''User data fetched successfully.'']
   \<and> statuses (getUserThemes {Commit} onlyRoot (request bob None ''t1'' ''p1'') dbFav) = [200]
   \<and> statuses (getUserFavoriteThemes {Commit} onlyRoot (request bob None ''t1'' ''p1'') dbFav) = [200]
   \<and> statuses (getUserFavoritePlugins {Commit} onlyRoot (request bob None ''t1'' ''p1'') dbFav) = [200]"
proof -
  have h1: "query_userId (request bob None ''t1'' ''p1'') = None
            \<or> query_userId (request bob None ''t1'' ''p1'') = Some []"
    by (simp add: request_def)
  have h2: "FindAll \<notin> {Commit}" by simp
  have h3: "\<not> onlyRoot bob" by (simp add: onlyRoot_def bob_def)
  have u: "userData (request bob None ''t1'' ''p1'') = bob" by (simp add: request_def)
  show ?thesis
    using no_query_userId_succeeds [where req = "request bob None ''t1'' ''p1''"
        and F = "{Commit}" and checkIsAdminUser = onlyRoot and db = dbFav, OF h1 h2] h2 h3
    by (simp add: statuses_def u request_def)
qed

text \<open>
  C9. Two authorized requests that differ only in the query's \<open>userId\<close> get the same answer
  from each fetch handler: the profile handler returns \<open>userData\<close>, and the other three
  return the rows selected by \<open>userData.id\<close>. The queried id decides the authorization and
  nothing else.
\<close>

theorem query_userId_selects_no_rows:
  assumes "authorized checkIsAdminUser (req\<lparr>query_userId := q1\<rparr>)"
    and "authorized checkIsAdminUser (req\<lparr>query_userId := q2\<rparr>)"
  shows "getUserProfile checkIsAdminUser (req\<lparr>query_userId := q1\<rparr>)
           = getUserProfile checkIsAdminUser (req\<lparr>query_userId := q2\<rparr>)
       \<and> getUserThemes F checkIsAdminUser (req\<lparr>query_userId := q1\<rparr>) db
           = getUserThemes F checkIsAdminUser (req\<lparr>query_userId := q2\<rparr>) db
       \<and> getUserFavoriteThemes F checkIsAdminUser (req\<lparr>query_userId := q1\<rparr>) db
           = getUserFavoriteThemes F checkIsAdminUser (req\<lparr>query_userId := q2\<rparr>) db
       \<and> getUserFavoritePlugins F checkIsAdminUser (req\<lparr>query_userId := q1\<rparr>) db
           = getUserFavoritePlugins F checkIsAdminUser (req\<lparr>query_userId := q2\<rparr>) db
       \<and> getUserProfile checkIsAdminUser (req\<lparr>query_userId := q1\<rparr>)
           = [Success 200 (UserPayload (userData req)) ''User data fetched successfully.'']
       \<and> (FindAll \<notin> F \<longrightarrow>
            getUserThemes F checkIsAdminUser (req\<lparr>query_userId := q1\<rparr>) db
              = [Success 200 (ThemeRows (filter (\<lambda>t. userId t = uid (userData req)) (themes db)))
                   ''User themes fetched successfully.'']
          \<and> getUserFavoriteThemes F checkIsAdminUser (req\<lparr>query_userId := q1\<rparr>) db
              = [Success 200
                   (FavoriteThemeRows
                      (map (\<lambda>r. (r, findByPk (fav_id r) (themes db)))
                         (filter (\<lambda>r. fav_userId r = uid (userData req)) (favoriteThemes db))))
                   ''User favorite themes fetched successfully.'']
          \<and> getUserFavoritePlugins F checkIsAdminUser (req\<lparr>query_userId := q1\<rparr>) db
              = [Success 200
                   (FavoritePluginRows
                      (map (\<lambda>r. (r, findByPk (fav_id r) (plugins db)))
                         (filter (\<lambda>r. fav_userId r = uid (userData req)) (favoritePlugins db))))
                   ''User favorite plugins fetched successfully.''])"
  using assms by (simp add: fetch_authorized findAllOwned_def findAllFavorites_def)

theorem query_userId_selects_no_rows_witness:
  "authorized onlyRoot (request root None ''t1'' ''p1''\<lparr>query_userId := Some ''alice''\<rparr>)
   \<and> authorized onlyRoot (request root None ''t1'' ''p1''\<lparr>query_userId := Some ''root''\<rparr>)
   \<and> getUserFavoriteThemes {} onlyRoot
         (request root None ''t1'' ''p1''\<lparr>query_userId := Some ''alice''\<rparr>) dbFav
       = getUserFavoriteThemes {} onlyRoot
         (request root None ''t1'' ''p1''\<lparr>query_userId := Some ''root''\<rparr>) dbFav
   \<and> getUserFavoriteThemes {} onlyRoot
         (request root None ''t1'' ''p1''\<lparr>query_userId := Some ''alice''\<rparr>) dbFav
       = [Success 200 (FavoriteThemeRows []) ''User favorite themes fetched successfully.'']
   \<and> getUserFavoriteThemes {} onlyRoot (request alice None ''t1'' ''p1'') dbFav
       \<noteq> [Success 200 (FavoriteThemeRows []) ''User favorite themes fetched successfully.'']"
proof -
  have a1: "authorized onlyRoot (request root None ''t1'' ''p1''\<lparr>query_userId := Some ''alice''\<rparr>)"
    by (simp add: authorized_def onlyRoot_def request_def root_def)
  have a2: "authorized onlyRoot (request root None ''t1'' ''p1''\<lparr>query_userId := Some ''root''\<rparr>)"
    by (simp add: authorized_def onlyRoot_def request_def root_def)
  have own: "getUserFavoriteThemes {} onlyRoot (request alice None ''t1'' ''p1'') dbFav
       \<noteq> [Success 200 (FavoriteThemeRows []) ''User favorite themes fetched successfully.'']"
    by (simp add: getUserFavoriteThemes_def call_def findAllFavorites_def findByPk_def
        request_def alice_def dbFav_def)
  have rows: "filter (\<lambda>r. fav_userId r = uid (userData (request root None ''t1'' ''p1'')))
                (favoriteThemes dbFav) = []"
    by (simp add: request_def root_def dbFav_def)
  note run = query_userId_selects_no_rows [OF a1 a2, of "{}" dbFav]
  from run have same: "getUserFavoriteThemes {} onlyRoot
         (request root None ''t1'' ''p1''\<lparr>query_userId := Some ''alice''\<rparr>) dbFav
       = getUserFavoriteThemes {} onlyRoot
         (request root None ''t1'' ''p1''\<lparr>query_userId := Some ''root''\<rparr>) dbFav"
    by (elim conjE)
  from run have "getUserFavoriteThemes {} onlyRoot
         (request root None ''t1'' ''p1''\<lparr>query_userId := Some ''alice''\<rparr>) dbFav
       = [Success 200
           (FavoriteThemeRows
              (map (\<lambda>r. (r, findByPk (fav_id r) (themes dbFav)))
                 (filter (\<lambda>r. fav_userId r = uid (userData (request root None ''t1'' ''p1'')))
                    (favoriteThemes dbFav))))
           ''User favorite themes fetched successfully.'']"
    by blast
  then have none: "getUserFavoriteThemes {} onlyRoot
         (request root None ''t1'' ''p1''\<lparr>query_userId := Some ''alice''\<rparr>) dbFav
       = [Success 200 (FavoriteThemeRows []) ''User favorite themes fetched successfully.'']"
    by (simp only: rows list.map)
  from a1 a2 same none own show ?thesis
    by (intro conjI)
qed

section \<open>The favorite handlers on existing and missing rows\<close>

text \<open>
  The two lookups in terms of the rows of the tables. A join row has the two columns
  \<open>userId\<close> and \<open>id\<close>, so a row for a user and an entity is one value.
\<close>

lemma fav_row_eq:
  "fav_userId r = u \<Longrightarrow> fav_id r = k \<Longrightarrow> (r::FavoriteTheme) = \<lparr>fav_userId = u, fav_id = k\<rparr>"
  by (cases r) simp

lemma findOne_None_iff:
  "findOne u k rows = None \<longleftrightarrow> \<lparr>fav_userId = u, fav_id = k\<rparr> \<notin> set rows"
proof -
  have "(\<exists>r \<in> set rows. fav_userId r = u \<and> fav_id r = k)
        \<longleftrightarrow> \<lparr>fav_userId = u, fav_id = k\<rparr> \<in> set rows"
  proof
    assume "\<exists>r \<in> set rows. fav_userId r = u \<and> fav_id r = k"
    then obtain r where r: "r \<in> set rows" "fav_userId r = u" "fav_id r = k"
      by blast
    from fav_row_eq [OF r(2) r(3)] r(1) show "\<lparr>fav_userId = u, fav_id = k\<rparr> \<in> set rows"
      by simp
  next
    assume "\<lparr>fav_userId = u, fav_id = k\<rparr> \<in> set rows"
    then show "\<exists>r \<in> set rows. fav_userId r = u \<and> fav_id r = k"
      by (rule rev_bexI) simp
  qed
  then show ?thesis
    unfolding findOne_def find_None_iff by blast
qed

lemma findOne_Some_eq:
  "findOne u k rows = Some r \<Longrightarrow> r = \<lparr>fav_userId = u, fav_id = k\<rparr>"
  using findOne_row [of u k rows r] fav_row_eq [of r u k] by simp

lemma findByPk_None_iff: "findByPk k rows = None \<longleftrightarrow> k \<notin> id' ` set rows"
  by (auto simp: findByPk_def find_None_iff)

text \<open>
  C3. When the theme (plugin) exists and the join table already holds a row for the user
  and the entity, an add request gets the response 400 first, and the handler leaves the
  database as it was: the join table and every \<open>favoritesCount\<close> are unchanged. (The calls
  that begin the transaction and look the rows up are taken not to raise.)
\<close>

theorem duplicate_favorite_rejected:
  assumes "Begin \<notin> F" and "FindByPk \<notin> F" and "FindOne \<notin> F"
  shows "(body_themeId req \<in> id' ` set (themes db)
          \<and> \<lparr>fav_userId = uid (userData req), fav_id = body_themeId req\<rparr>
                \<in> set (favoriteThemes db)
          \<longrightarrow> fst (addUserFavoriteTheme F req db) = db
              \<and> (\<exists>rest. snd (addUserFavoriteTheme F req db)
                         = Error 400 ''Theme already favorited.'' # rest))
       \<and> (body_pluginId req \<in> id' ` set (plugins db)
          \<and> \<lparr>fav_userId = uid (userData req), fav_id = body_pluginId req\<rparr>
                \<in> set (favoritePlugins db)
          \<longrightarrow> fst (addUserFavoritePlugin F req db) = db
              \<and> (\<exists>rest. snd (addUserFavoritePlugin F req db)
                         = Error 400 ''Plugin already favorited.'' # rest))"
proof (intro conjI impI)
  assume h: "body_themeId req \<in> id' ` set (themes db)
          \<and> \<lparr>fav_userId = uid (userData req), fav_id = body_themeId req\<rparr>
                \<in> set (favoriteThemes db)"
  then obtain theme r where
    found: "findByPk (body_themeId req) (themes db) = Some theme"
    and row: "findOne (uid (userData req)) (body_themeId req) (favoriteThemes db) = Some r"
    using findByPk_None_iff [of "body_themeId req" "themes db"]
      findOne_None_iff [of "uid (userData req)" "body_themeId req" "favoriteThemes db"]
    by auto
  have cb: "addUserFavoriteTheme_callback F req db = ([Error 400 ''Theme already favorited.''], Inr db)"
    using assms found row by (simp add: addUserFavoriteTheme_callback_def call_def)
  show "fst (addUserFavoriteTheme F req db) = db"
    using assms cb by (simp add: addUserFavoriteTheme_def transaction_def)
  show "\<exists>rest. snd (addUserFavoriteTheme F req db) = Error 400 ''Theme already favorited.'' # rest"
    using assms cb by (simp add: addUserFavoriteTheme_def transaction_def)
next
  assume h: "body_pluginId req \<in> id' ` set (plugins db)
          \<and> \<lparr>fav_userId = uid (userData req), fav_id = body_pluginId req\<rparr>
                \<in> set (favoritePlugins db)"
  then obtain plugin r where
    found: "findByPk (body_pluginId req) (plugins db) = Some plugin"
    and row: "findOne (uid (userData req)) (body_pluginId req) (favoritePlugins db) = Some r"
    using findByPk_None_iff [of "body_pluginId req" "plugins db"]
      findOne_None_iff [of "uid (userData req)" "body_pluginId req" "favoritePlugins db"]
    by auto
  have cb: "addUserFavoritePlugin_callback F req db = ([Error 400 ''Plugin already favorited.''], Inr db)"
    using assms found row by (simp add: addUserFavoritePlugin_callback_def call_def)
  show "fst (addUserFavoritePlugin F req db) = db"
    using assms cb by (simp add: addUserFavoritePlugin_def transaction_def)
  show "\<exists>rest. snd (addUserFavoritePlugin F req db) = Error 400 ''Plugin already favorited.'' # rest"
    using assms cb by (simp add: addUserFavoritePlugin_def transaction_def)
qed

theorem duplicate_favorite_rejected_witness:
  "body_themeId (request alice None ''t1'' ''p1'') \<in> id' ` set (themes dbFav)
   \<and> \<lparr>fav_userId = uid (userData (request alice None ''t1'' ''p1'')),
       fav_id = body_themeId (request alice None ''t1'' ''p1'')\<rparr> \<in> set (favoriteThemes dbFav)
   \<and> body_pluginId (request alice None ''t1'' ''p1'') \<in> id' ` set (plugins dbFav)
   \<and> \<lparr>fav_userId = uid (userData (request alice None ''t1'' ''p1'')),
       fav_id = body_pluginId (request alice None ''t1'' ''p1'')\<rparr> \<in> set (favoritePlugins dbFav)
   \<and> fst (addUserFavoriteTheme {} (request alice None ''t1'' ''p1'') dbFav) = dbFav
   \<and> (\<exists>rest. snd (addUserFavoriteTheme {} (request alice None ''t1'' ''p1'') dbFav)
                = Error 400 ''Theme already favorited.'' # rest)
   \<and> fst (addUserFavoritePlugin {} (request alice None ''t1'' ''p1'') dbFav) = dbFav
   \<and> (\<exists>rest. snd (addUserFavoritePlugin {} (request alice None ''t1'' ''p1'') dbFav)
                = Error 400 ''Plugin already favorited.'' # rest)"
proof -
  have t: "body_themeId (request alice None ''t1'' ''p1'') \<in> id' ` set (themes dbFav)
     \<and> \<lparr>fav_userId = uid (userData (request alice None ''t1'' ''p1'')),
       fav_id = body_themeId (request alice None ''t1'' ''p1'')\<rparr> \<in> set (favoriteThemes dbFav)"
    by (simp add: request_def alice_def dbFav_def)
  have p: "body_pluginId (request alice None ''t1'' ''p1'') \<in> id' ` set (plugins dbFav)
     \<and> \<lparr>fav_userId = uid (userData (request alice None ''t1'' ''p1'')),
       fav_id = body_pluginId (request alice None ''t1'' ''p1'')\<rparr> \<in> set (favoritePlugins dbFav)"
    by (simp add: request_def alice_def dbFav_def)
  have F: "Begin \<notin> {}" "FindByPk \<notin> {}" "FindOne \<notin> {}" by simp_all
  from duplicate_favorite_rejected [OF F, of "request alice None ''t1'' ''p1''" dbFav] t p
  show ?thesis by blast
qed

text \<open>
  C4. When the join table holds no row for the user and the entity, a remove request gets
  the response 404 first, and the handler leaves the database as it was.
\<close>

theorem remove_missing_favorite_404:
  assumes "Begin \<notin> F" and "FindOne \<notin> F"
  shows "(\<lparr>fav_userId = uid (userData req), fav_id = params_themeId req\<rparr>
            \<notin> set (favoriteThemes db)
          \<longrightarrow> fst (removeUserFavoriteTheme F req db) = db
              \<and> (\<exists>rest. snd (removeUserFavoriteTheme F req db)
                         = Error 404 ''Favorite theme not found.'' # rest))
       \<and> (\<lparr>fav_userId = uid (userData req), fav_id = params_pluginId req\<rparr>
            \<notin> set (favoritePlugins db)
          \<longrightarrow> fst (removeUserFavoritePlugin F req db) = db
              \<and> (\<exists>rest. snd (removeUserFavoritePlugin F req db)
                         = Error 404 ''Favorite plugin not found.'' # rest))"
proof (intro conjI impI)
  assume "\<lparr>fav_userId = uid (userData req), fav_id = params_themeId req\<rparr>
            \<notin> set (favoriteThemes db)"
  then have "findOne (uid (userData req)) (params_themeId req) (favoriteThemes db) = None"
    by (simp add: findOne_None_iff)
  with assms have cb: "removeUserFavoriteTheme_callback F req db
                        = ([Error 404 ''Favorite theme not found.''], Inr db)"
    by (simp add: removeUserFavoriteTheme_callback_def call_def)
  show "fst (removeUserFavoriteTheme F req db) = db"
    using assms cb by (simp add: removeUserFavoriteTheme_def transaction_def)
  show "\<exists>rest. snd (removeUserFavoriteTheme F req db)
                 = Error 404 ''Favorite theme not found.'' # rest"
    using assms cb by (simp add: removeUserFavoriteTheme_def transaction_def)
next
  assume "\<lparr>fav_userId = uid (userData req), fav_id = params_pluginId req\<rparr>
            \<notin> set (favoritePlugins db)"
  then have "findOne (uid (userData req)) (params_pluginId req) (favoritePlugins db) = None"
    by (simp add: findOne_None_iff)
  with assms have cb: "removeUserFavoritePlugin_callback F req db
                        = ([Error 404 ''Favorite plugin not found.''], Inr db)"
    by (simp add: removeUserFavoritePlugin_callback_def call_def)
  show "fst (removeUserFavoritePlugin F req db) = db"
    using assms cb by (simp add: removeUserFavoritePlugin_def transaction_def)
  show "\<exists>rest. snd (removeUserFavoritePlugin F req db)
                 = Error 404 ''Favorite plugin not found.'' # rest"
    using assms cb by (simp add: removeUserFavoritePlugin_def transaction_def)
qed

theorem remove_missing_favorite_404_witness:
  "\<lparr>fav_userId = uid (userData (request bob None ''t1'' ''p1'')),
     fav_id = params_themeId (request bob None ''t1'' ''p1'')\<rparr> \<notin> set (favoriteThemes dbFav)
   \<and> \<lparr>fav_userId = uid (userData (request bob None ''t1'' ''p1'')),
       fav_id = params_pluginId (request bob None ''t1'' ''p1'')\<rparr> \<notin> set (favoritePlugins dbFav)
   \<and> fst (removeUserFavoriteTheme {} (request bob None ''t1'' ''p1'') dbFav) = dbFav
   \<and> (\<exists>rest. snd (removeUserFavoriteTheme {} (request bob None ''t1'' ''p1'') dbFav)
                = Error 404 ''Favorite theme not found.'' # rest)
   \<and> fst (removeUserFavoritePlugin {} (request bob None ''t1'' ''p1'') dbFav) = dbFav
   \<and> (\<exists>rest. snd (removeUserFavoritePlugin {} (request bob None ''t1'' ''p1'') dbFav)
                = Error 404 ''Favorite plugin not found.'' # rest)"
proof -
  have t: "\<lparr>fav_userId = uid (userData (request bob None ''t1'' ''p1'')),
     fav_id = params_themeId (request bob None ''t1'' ''p1'')\<rparr> \<notin> set (favoriteThemes dbFav)"
    by (simp add: request_def bob_def dbFav_def)
  have p: "\<lparr>fav_userId = uid (userData (request bob None ''t1'' ''p1'')),
       fav_id = params_pluginId (request bob None ''t1'' ''p1'')\<rparr> \<notin> set (favoritePlugins dbFav)"
    by (simp add: request_def bob_def dbFav_def)
  have F: "Begin \<notin> {}" "FindOne \<notin> {}" by simp_all
  from remove_missing_favorite_404 [OF F, of "request bob None ''t1'' ''p1''" dbFav] t p
  show ?thesis by blast
qed

text \<open>
  C10. When the join table holds a row for the user and the entity and no theme (plugin)
  has that id, a remove request succeeds with the single response 200: the row is deleted
  from the join table and no counter is touched, since the decrement is made only when the
  parent is found. (No database call raises.)
\<close>

theorem remove_orphan_favorite_succeeds:
  assumes "Begin \<notin> F" and "FindOne \<notin> F" and "Destroy \<notin> F" and "FindByPk \<notin> F"
    and "Commit \<notin> F"
  shows "(\<lparr>fav_userId = uid (userData req), fav_id = params_themeId req\<rparr>
               \<in> set (favoriteThemes db)
             \<and> params_themeId req \<notin> id' ` set (themes db)
          \<longrightarrow> removeUserFavoriteTheme F req db =
                (db\<lparr>favoriteThemes :=
                      destroy \<lparr>fav_userId = uid (userData req), fav_id = params_themeId req\<rparr>
                        (favoriteThemes db)\<rparr>,
                 [Success 200 EmptyObject ''Removed theme from favorites successfully.'']))
       \<and> (\<lparr>fav_userId = uid (userData req), fav_id = params_pluginId req\<rparr>
               \<in> set (favoritePlugins db)
             \<and> params_pluginId req \<notin> id' ` set (plugins db)
          \<longrightarrow> removeUserFavoritePlugin F req db =
                (db\<lparr>favoritePlugins :=
                      destroy \<lparr>fav_userId = uid (userData req), fav_id = params_pluginId req\<rparr>
                        (favoritePlugins db)\<rparr>,
                 [Success 200 EmptyObject ''Removed plugin from favorites successfully.'']))"
proof (intro conjI impI)
  assume h: "\<lparr>fav_userId = uid (userData req), fav_id = params_themeId req\<rparr>
               \<in> set (favoriteThemes db)
             \<and> params_themeId req \<notin> id' ` set (themes db)"
  then obtain r where
    row: "findOne (uid (userData req)) (params_themeId req) (favoriteThemes db) = Some r"
    using findOne_None_iff [of "uid (userData req)" "params_themeId req" "favoriteThemes db"]
    by auto
  have r: "r = \<lparr>fav_userId = uid (userData req), fav_id = params_themeId req\<rparr>"
    using row by (rule findOne_Some_eq)
  have gone: "findByPk (params_themeId req) (themes db) = None"
    using h by (simp add: findByPk_None_iff)
  have cb: "removeUserFavoriteTheme_callback F req db
             = ([], Inr (db\<lparr>favoriteThemes :=
                  destroy \<lparr>fav_userId = uid (userData req), fav_id = params_themeId req\<rparr>
                    (favoriteThemes db)\<rparr>))"
    using assms row gone r by (simp add: removeUserFavoriteTheme_callback_def call_def)
  show "removeUserFavoriteTheme F req db =
          (db\<lparr>favoriteThemes :=
                destroy \<lparr>fav_userId = uid (userData req), fav_id = params_themeId req\<rparr>
                  (favoriteThemes db)\<rparr>,
           [Success 200 EmptyObject ''Removed theme from favorites successfully.''])"
    using assms cb by (simp add: removeUserFavoriteTheme_def transaction_def)
next
  assume h: "\<lparr>fav_userId = uid (userData req), fav_id = params_pluginId req\<rparr>
               \<in> set (favoritePlugins db)
             \<and> params_pluginId req \<notin> id' ` set (plugins db)"
  then obtain r where
    row: "findOne (uid (userData req)) (params_pluginId req) (favoritePlugins db) = Some r"
    using findOne_None_iff [of "uid (userData req)" "params_pluginId req" "favoritePlugins db"]
    by auto
  have r: "r = \<lparr>fav_userId = uid (userData req), fav_id = params_pluginId req\<rparr>"
    using row by (rule findOne_Some_eq)
  have gone: "findByPk (params_pluginId req) (plugins db) = None"
    using h by (simp add: findByPk_None_iff)
  have cb: "removeUserFavoritePlugin_callback F req db
             = ([], Inr (db\<lparr>favoritePlugins :=
                  destroy \<lparr>fav_userId = uid (userData req), fav_id = params_pluginId req\<rparr>
                    (favoritePlugins db)\<rparr>))"
    using assms row gone r by (simp add: removeUserFavoritePlugin_callback_def call_def)
  show "removeUserFavoritePlugin F req db =
          (db\<lparr>favoritePlugins :=
                destroy \<lparr>fav_userId = uid (userData req), fav_id = params_pluginId req\<rparr>
                  (favoritePlugins db)\<rparr>,
           [Success 200 EmptyObject ''Removed plugin from favorites successfully.''])"
    using assms cb by (simp add: removeUserFavoritePlugin_def transaction_def)
qed

theorem remove_orphan_favorite_succeeds_witness:
  "\<lparr>fav_userId = uid (userData (request alice None ''t1'' ''p1'')),
     fav_id = params_themeId (request alice None ''t1'' ''p1'')\<rparr> \<in> set (favoriteThemes dbOrphan)
   \<and> params_themeId (request alice None ''t1'' ''p1'') \<notin> id' ` set (themes dbOrphan)
   \<and> \<lparr>fav_userId = uid (userData (request alice None ''t1'' ''p1'')),
       fav_id = params_pluginId (request alice None ''t1'' ''p1'')\<rparr> \<in> set (favoritePlugins dbOrphan)
   \<and> params_pluginId (request alice None ''t1'' ''p1'') \<notin> id' ` set (plugins dbOrphan)
   \<and> removeUserFavoriteTheme {} (request alice None ''t1'' ''p1'') dbOrphan =
        (dbOrphan\<lparr>favoriteThemes := []\<rparr>,
         [Success 200 EmptyObject ''Removed theme from favorites successfully.''])
   \<and> removeUserFavoritePlugin {} (request alice None ''t1'' ''p1'') dbOrphan =
        (dbOrphan\<lparr>favoritePlugins := []\<rparr>,
         [Success 200 EmptyObject ''Removed plugin from favorites successfully.''])"
proof -
  have t: "\<lparr>fav_userId = uid (userData (request alice None ''t1'' ''p1'')),
     fav_id = params_themeId (request alice None ''t1'' ''p1'')\<rparr> \<in> set (favoriteThemes dbOrphan)
   \<and> params_themeId (request alice None ''t1'' ''p1'') \<notin> id' ` set (themes dbOrphan)"
    by (simp add: request_def alice_def dbOrphan_def)
  have p: "\<lparr>fav_userId = uid (userData (request alice None ''t1'' ''p1'')),
       fav_id = params_pluginId (request alice None ''t1'' ''p1'')\<rparr> \<in> set (favoritePlugins dbOrphan)
   \<and> params_pluginId (request alice None ''t1'' ''p1'') \<notin> id' ` set (plugins dbOrphan)"
    by (simp add: request_def alice_def dbOrphan_def)
  have F: "Begin \<notin> {}" "FindOne \<notin> {}" "Destroy \<notin> {}" "FindByPk \<notin> {}" "Commit \<notin> {}"
    by simp_all
  have dt: "destroy \<lparr>fav_userId = uid (userData (request alice None ''t1'' ''p1'')),
                fav_id = params_themeId (request alice None ''t1'' ''p1'')\<rparr>
              (favoriteThemes dbOrphan) = []"
    by (simp add: destroy_def request_def alice_def dbOrphan_def)
  have dp: "destroy \<lparr>fav_userId = uid (userData (request alice None ''t1'' ''p1'')),
                fav_id = params_pluginId (request alice None ''t1'' ''p1'')\<rparr>
              (favoritePlugins dbOrphan) = []"
    by (simp add: destroy_def request_def alice_def dbOrphan_def)
  from remove_orphan_favorite_succeeds [OF F, of "request alice None ''t1'' ''p1''" dbOrphan] t p
  show ?thesis unfolding dt dp by blast
qed

section \<open>Atomicity and exceptions\<close>

text \<open>
  Per handler: an error response implies an unchanged database, and the database is either
  unchanged or fully updated.
\<close>

lemma addUserFavoriteTheme_atomic:
  "((\<exists>s m. Error s m \<in> set (snd (addUserFavoriteTheme F req db)))
      \<longrightarrow> fst (addUserFavoriteTheme F req db) = db)
   \<and> (fst (addUserFavoriteTheme F req db) = db
      \<or> fst (addUserFavoriteTheme F req db) =
          db\<lparr>favoriteThemes :=
                create \<lparr>fav_userId = uid (userData req), fav_id = body_themeId req\<rparr>
                  (favoriteThemes db),
             themes := increment (body_themeId req) 1 (themes db)\<rparr>)"
  using addUserFavoriteTheme_shape [of F req db] by auto

lemma removeUserFavoriteTheme_atomic:
  "((\<exists>s m. Error s m \<in> set (snd (removeUserFavoriteTheme F req db)))
      \<longrightarrow> fst (removeUserFavoriteTheme F req db) = db)
   \<and> (fst (removeUserFavoriteTheme F req db) = db
      \<or> fst (removeUserFavoriteTheme F req db) =
          db\<lparr>favoriteThemes :=
                destroy \<lparr>fav_userId = uid (userData req), fav_id = params_themeId req\<rparr>
                  (favoriteThemes db),
             themes := decrement (params_themeId req) 1 (themes db)\<rparr>)"
  using removeUserFavoriteTheme_shape [of F req db]
  by (auto dest!: findOne_Some_eq)

lemma addUserFavoritePlugin_atomic:
  "((\<exists>s m. Error s m \<in> set (snd (addUserFavoritePlugin F req db)))
      \<longrightarrow> fst (addUserFavoritePlugin F req db) = db)
   \<and> (fst (addUserFavoritePlugin F req db) = db
      \<or> fst (addUserFavoritePlugin F req db) =
          db\<lparr>favoritePlugins :=
                create \<lparr>fav_userId = uid (userData req), fav_id = body_pluginId req\<rparr>
                  (favoritePlugins db),
             plugins := increment (body_pluginId req) 1 (plugins db)\<rparr>)"
  using addUserFavoritePlugin_shape [of F req db] by auto

lemma removeUserFavoritePlugin_atomic:
  "((\<exists>s m. Error s m \<in> set (snd (removeUserFavoritePlugin F req db)))
      \<longrightarrow> fst (removeUserFavoritePlugin F req db) = db)
   \<and> (fst (removeUserFavoritePlugin F req db) = db
      \<or> fst (removeUserFavoritePlugin F req db) =
          db\<lparr>favoritePlugins :=
                destroy \<lparr>fav_userId = uid (userData req), fav_id = params_pluginId req\<rparr>
                  (favoritePlugins db),
             plugins := decrement (params_pluginId req) 1 (plugins db)\<rparr>)"
  using removeUserFavoritePlugin_shape [of F req db]
  by (auto dest!: findOne_Some_eq)

text \<open>
  C5. Each add and remove handler is atomic on the database: whenever it issues an error
  response (404, 400 or 500) the state it leaves is the state it found, and in every run
  the state it leaves is either the state it found or the one with both the join row and
  the counter updated; a join row changed without its counter, or a counter without its row,
  is never left behind.
\<close>

theorem favorite_update_atomic:
  "((\<exists>s m. Error s m \<in> set (snd (addUserFavoriteTheme F req db)))
      \<longrightarrow> fst (addUserFavoriteTheme F req db) = db)
   \<and> (fst (addUserFavoriteTheme F req db) = db
      \<or> fst (addUserFavoriteTheme F req db) =
          db\<lparr>favoriteThemes :=
                create \<lparr>fav_userId = uid (userData req), fav_id = body_themeId req\<rparr>
                  (favoriteThemes db),
             themes := increment (body_themeId req) 1 (themes db)\<rparr>)
   \<and> ((\<exists>s m. Error s m \<in> set (snd (removeUserFavoriteTheme F req db)))
      \<longrightarrow> fst (removeUserFavoriteTheme F req db) = db)
   \<and> (fst (removeUserFavoriteTheme F req db) = db
      \<or> fst (removeUserFavoriteTheme F req db) =
          db\<lparr>favoriteThemes :=
                destroy \<lparr>fav_userId = uid (userData req), fav_id = params_themeId req\<rparr>
                  (favoriteThemes db),
             themes := decrement (params_themeId req) 1 (themes db)\<rparr>)
   \<and> ((\<exists>s m. Error s m \<in> set (snd (addUserFavoritePlugin F req db)))
      \<longrightarrow> fst (addUserFavoritePlugin F req db) = db)
   \<and> (fst (addUserFavoritePlugin F req db) = db
      \<or> fst (addUserFavoritePlugin F req db) =
          db\<lparr>favoritePlugins :=
                create \<lparr>fav_userId = uid (userData req), fav_id = body_pluginId req\<rparr>
                  (favoritePlugins db),
             plugins := increment (body_pluginId req) 1 (plugins db)\<rparr>)
   \<and> ((\<exists>s m. Error s m \<in> set (snd (removeUserFavoritePlugin F req db)))
      \<longrightarrow> fst (removeUserFavoritePlugin F req db) = db)
   \<and> (fst (removeUserFavoritePlugin F req db) = db
      \<or> fst (removeUserFavoritePlugin F req db) =
          db\<lparr>favoritePlugins :=
                destroy \<lparr>fav_userId = uid (userData req), fav_id = params_pluginId req\<rparr>
                  (favoritePlugins db),
             plugins := decrement (params_pluginId req) 1 (plugins db)\<rparr>)"
  using addUserFavoriteTheme_atomic [of F req db] removeUserFavoriteTheme_atomic [of F req db]
    addUserFavoritePlugin_atomic [of F req db] removeUserFavoritePlugin_atomic [of F req db]
  by (intro conjI) (erule conjE, assumption)+

theorem favorite_update_atomic_witness:
  "Error 500 ''Failed to add favorite theme.''
     \<in> set (snd (addUserFavoriteTheme {Increment} (request bob None ''t1'' ''p1'') dbFav))
   \<and> fst (addUserFavoriteTheme {Increment} (request bob None ''t1'' ''p1'') dbFav) = dbFav
   \<and> Error 500 ''Failed to remove favorite theme.''
     \<in> set (snd (removeUserFavoriteTheme {Decrement} (request alice None ''t1'' ''p1'') dbFav))
   \<and> fst (removeUserFavoriteTheme {Decrement} (request alice None ''t1'' ''p1'') dbFav) = dbFav
   \<and> Error 500 ''Failed to add favorite plugin.''
     \<in> set (snd (addUserFavoritePlugin {Increment} (request bob None ''t1'' ''p1'') dbFav))
   \<and> fst (addUserFavoritePlugin {Increment} (request bob None ''t1'' ''p1'') dbFav) = dbFav
   \<and> Error 500 ''Failed to remove favorite plugin.''
     \<in> set (snd (removeUserFavoritePlugin {Decrement} (request alice None ''t1'' ''p1'') dbFav))
   \<and> fst (removeUserFavoritePlugin {Decrement} (request alice None ''t1'' ''p1'') dbFav) = dbFav"
proof -
  have at: "Error 500 ''Failed to add favorite theme.''
     \<in> set (snd (addUserFavoriteTheme {Increment} (request bob None ''t1'' ''p1'') dbFav))"
    by (simp add: addUserFavoriteTheme_def transaction_def addUserFavoriteTheme_callback_def
        call_def findByPk_def findOne_def request_def bob_def dbFav_def)
  have rt: "Error 500 ''Failed to remove favorite theme.''
     \<in> set (snd (removeUserFavoriteTheme {Decrement} (request alice None ''t1'' ''p1'') dbFav))"
    by (simp add: removeUserFavoriteTheme_def transaction_def removeUserFavoriteTheme_callback_def
        call_def findByPk_def findOne_def request_def alice_def dbFav_def)
  have ap: "Error 500 ''Failed to add favorite plugin.''
     \<in> set (snd (addUserFavoritePlugin {Increment} (request bob None ''t1'' ''p1'') dbFav))"
    by (simp add: addUserFavoritePlugin_def transaction_def addUserFavoritePlugin_callback_def
        call_def findByPk_def findOne_def request_def bob_def dbFav_def)
  have rp: "Error 500 ''Failed to remove favorite plugin.''
     \<in> set (snd (removeUserFavoritePlugin {Decrement} (request alice None ''t1'' ''p1'') dbFav))"
    by (simp add: removeUserFavoritePlugin_def transaction_def removeUserFavoritePlugin_callback_def
        call_def findByPk_def findOne_def request_def alice_def dbFav_def)
  note add = favorite_update_atomic [of "{Increment}" "request bob None ''t1'' ''p1''" dbFav]
  note remove = favorite_update_atomic [of "{Decrement}" "request alice None ''t1'' ''p1''" dbFav]
  have 1: "fst (addUserFavoriteTheme {Increment} (request bob None ''t1'' ''p1'') dbFav) = dbFav"
    using add [THEN conjunct1] at by blast
  have 2: "fst (removeUserFavoriteTheme {Decrement} (request alice None ''t1'' ''p1'') dbFav) = dbFav"
    using remove [THEN conjunct2, THEN conjunct2, THEN conjunct1] rt by blast
  have 3: "fst (addUserFavoritePlugin {Increment} (request bob None ''t1'' ''p1'') dbFav) = dbFav"
    using add [THEN conjunct2, THEN conjunct2, THEN conjunct2, THEN conjunct2, THEN conjunct1] ap
    by blast
  have 4: "fst (removeUserFavoritePlugin {Decrement} (request alice None ''t1'' ''p1'') dbFav) = dbFav"
    using remove [THEN conjunct2, THEN conjunct2, THEN conjunct2, THEN conjunct2,
        THEN conjunct2, THEN conjunct2, THEN conjunct1] rp
    by blast
  from at 1 rt 2 ap 3 rp 4 show ?thesis
    by (intro conjI)
qed

text \<open>
  The calls a favorite handler awaits, in order, depend on what the lookups find. An add
  handler begins the transaction and looks the entity up; when it is found it looks the join
  row up; when there is none it creates the row and increments the counter; then the
  transaction commits. A remove handler begins, looks the join row up; when there is one it
  destroys it and looks the entity up; when that is found it decrements the counter; then
  the transaction commits. The first of these calls that raises decides the outcome.
\<close>

lemma addUserFavoriteTheme_first_fault:
  assumes "find (\<lambda>c. c \<in> F)
             ([Begin, FindByPk]
              @ (if body_themeId req \<in> id' ` set (themes db)
                 then FindOne #
                      (if \<lparr>fav_userId = uid (userData req), fav_id = body_themeId req\<rparr>
                            \<in> set (favoriteThemes db)
                       then [] else [Create, Increment])
                 else [])
              @ [Commit]) = Some c"
  shows "addUserFavoriteTheme F req db =
           (db,
            (if c = Commit \<and> body_themeId req \<notin> id' ` set (themes db)
             then [Error 404 ''Theme not found.'']
             else if c = Commit
                     \<and> \<lparr>fav_userId = uid (userData req), fav_id = body_themeId req\<rparr>
                           \<in> set (favoriteThemes db)
             then [Error 400 ''Theme already favorited.'']
             else [])
            @ [Log ''Error adding favorite theme:'' (DbError c),
               Error 500 ''Failed to add favorite theme.''])"
proof (cases "findByPk (body_themeId req) (themes db)")
  case None
  then have absent: "body_themeId req \<notin> id' ` set (themes db)"
    by (simp add: findByPk_None_iff)
  from assms absent None show ?thesis
    by (simp add: addUserFavoriteTheme_def transaction_def addUserFavoriteTheme_callback_def
        call_def split: if_splits)
next
  case (Some theme)
  note found = this
  then have present: "body_themeId req \<in> id' ` set (themes db)"
    using findByPk_None_iff [of "body_themeId req" "themes db"] by simp
  show ?thesis
  proof (cases "findOne (uid (userData req)) (body_themeId req) (favoriteThemes db)")
    case None
    then have norow: "\<lparr>fav_userId = uid (userData req), fav_id = body_themeId req\<rparr>
                       \<notin> set (favoriteThemes db)"
      by (simp add: findOne_None_iff)
    from assms present norow found None show ?thesis
      by (simp add: addUserFavoriteTheme_def transaction_def addUserFavoriteTheme_callback_def
        call_def split: if_splits)
  next
    case (Some existing)
    then have row: "\<lparr>fav_userId = uid (userData req), fav_id = body_themeId req\<rparr>
                       \<in> set (favoriteThemes db)"
      using findOne_None_iff [of "uid (userData req)" "body_themeId req" "favoriteThemes db"]
      by simp
    from assms present row found Some show ?thesis
      by (simp add: addUserFavoriteTheme_def transaction_def addUserFavoriteTheme_callback_def
        call_def split: if_splits)
  qed
qed

lemma removeUserFavoriteTheme_first_fault:
  assumes "find (\<lambda>c. c \<in> F)
             ([Begin, FindOne]
              @ (if \<lparr>fav_userId = uid (userData req), fav_id = params_themeId req\<rparr>
                      \<in> set (favoriteThemes db)
                 then [Destroy, FindByPk]
                      @ (if params_themeId req \<in> id' ` set (themes db)
                         then [Decrement] else [])
                 else [])
              @ [Commit]) = Some c"
  shows "removeUserFavoriteTheme F req db =
           (db,
            (if c = Commit
                \<and> \<lparr>fav_userId = uid (userData req), fav_id = params_themeId req\<rparr>
                      \<notin> set (favoriteThemes db)
             then [Error 404 ''Favorite theme not found.'']
             else [])
            @ [Log ''Error removing favorite theme:'' (DbError c),
               Error 500 ''Failed to remove favorite theme.''])"
proof (cases "findOne (uid (userData req)) (params_themeId req) (favoriteThemes db)")
  case None
  then have norow: "\<lparr>fav_userId = uid (userData req), fav_id = params_themeId req\<rparr>
                     \<notin> set (favoriteThemes db)"
    by (simp add: findOne_None_iff)
  from assms norow None show ?thesis
    by (simp add: removeUserFavoriteTheme_def transaction_def
        removeUserFavoriteTheme_callback_def call_def split: if_splits)
next
  case (Some existing)
  note row = this
  then have present: "\<lparr>fav_userId = uid (userData req), fav_id = params_themeId req\<rparr>
                     \<in> set (favoriteThemes db)"
    using findOne_None_iff [of "uid (userData req)" "params_themeId req" "favoriteThemes db"]
    by simp
  show ?thesis
  proof (cases "findByPk (params_themeId req) (themes db)")
    case None
    then have gone: "params_themeId req \<notin> id' ` set (themes db)"
      by (simp add: findByPk_None_iff)
    from assms present gone row None show ?thesis
      by (simp add: removeUserFavoriteTheme_def transaction_def
        removeUserFavoriteTheme_callback_def call_def split: if_splits)
  next
    case (Some theme)
    then have found: "params_themeId req \<in> id' ` set (themes db)"
      using findByPk_None_iff [of "params_themeId req" "themes db"] by simp
    from assms present found row Some show ?thesis
      by (simp add: removeUserFavoriteTheme_def transaction_def
        removeUserFavoriteTheme_callback_def call_def split: if_splits)
  qed
qed

lemma addUserFavoriteTheme_no_fault:
  assumes "find (\<lambda>c. c \<in> F)
             ([Begin, FindByPk]
              @ (if body_themeId req \<in> id' ` set (themes db)
                 then FindOne #
                      (if \<lparr>fav_userId = uid (userData req), fav_id = body_themeId req\<rparr>
                            \<in> set (favoriteThemes db)
                       then [] else [Create, Increment])
                 else [])
              @ [Commit]) = None"
  shows "500 \<notin> set (statuses (snd (addUserFavoriteTheme F req db)))"
proof (cases "findByPk (body_themeId req) (themes db)")
  case None
  then have absent: "body_themeId req \<notin> id' ` set (themes db)"
    by (simp add: findByPk_None_iff)
  from assms absent None show ?thesis
    by (simp add: addUserFavoriteTheme_def transaction_def addUserFavoriteTheme_callback_def
        call_def statuses_def split: if_splits)
next
  case (Some theme)
  note found = this
  then have present: "body_themeId req \<in> id' ` set (themes db)"
    using findByPk_None_iff [of "body_themeId req" "themes db"] by simp
  show ?thesis
  proof (cases "findOne (uid (userData req)) (body_themeId req) (favoriteThemes db)")
    case None
    then have norow: "\<lparr>fav_userId = uid (userData req), fav_id = body_themeId req\<rparr>
                       \<notin> set (favoriteThemes db)"
      by (simp add: findOne_None_iff)
    from assms present norow found None show ?thesis
      by (simp add: addUserFavoriteTheme_def transaction_def addUserFavoriteTheme_callback_def
        call_def statuses_def split: if_splits)
  next
    case (Some existing)
    then have row: "\<lparr>fav_userId = uid (userData req), fav_id = body_themeId req\<rparr>
                       \<in> set (favoriteThemes db)"
      using findOne_None_iff [of "uid (userData req)" "body_themeId req" "favoriteThemes db"]
      by simp
    from assms present row found Some show ?thesis
      by (simp add: addUserFavoriteTheme_def transaction_def addUserFavoriteTheme_callback_def
        call_def statuses_def split: if_splits)
  qed
qed

lemma removeUserFavoriteTheme_no_fault:
  assumes "find (\<lambda>c. c \<in> F)
             ([Begin, FindOne]
              @ (if \<lparr>fav_userId = uid (userData req), fav_id = params_themeId req\<rparr>
                      \<in> set (favoriteThemes db)
                 then [Destroy, FindByPk]
                      @ (if params_themeId req \<in> id' ` set (themes db)
                         then [Decrement] else [])
                 else [])
              @ [Commit]) = None"
  shows "500 \<notin> set (statuses (snd (removeUserFavoriteTheme F req db)))"
proof (cases "findOne (uid (userData req)) (params_themeId req) (favoriteThemes db)")
  case None
  then have norow: "\<lparr>fav_userId = uid (userData req), fav_id = params_themeId req\<rparr>
                     \<notin> set (favoriteThemes db)"
    by (simp add: findOne_None_iff)
  from assms norow None show ?thesis
    by (simp add: removeUserFavoriteTheme_def transaction_def
        removeUserFavoriteTheme_callback_def call_def statuses_def split: if_splits)
next
  case (Some existing)
  note row = this
  then have present: "\<lparr>fav_userId = uid (userData req), fav_id = params_themeId req\<rparr>
                     \<in> set (favoriteThemes db)"
    using findOne_None_iff [of "uid (userData req)" "params_themeId req" "favoriteThemes db"]
    by simp
  show ?thesis
  proof (cases "findByPk (params_themeId req) (themes db)")
    case None
    then have gone: "params_themeId req \<notin> id' ` set (themes db)"
      by (simp add: findByPk_None_iff)
    from assms present gone row None show ?thesis
      by (simp add: removeUserFavoriteTheme_def transaction_def
        removeUserFavoriteTheme_callback_def call_def statuses_def split: if_splits)
  next
    case (Some theme)
    then have found: "params_themeId req \<in> id' ` set (themes db)"
      using findByPk_None_iff [of "params_themeId req" "themes db"] by simp
    from assms present found row Some show ?thesis
      by (simp add: removeUserFavoriteTheme_def transaction_def
        removeUserFavoriteTheme_callback_def call_def statuses_def split: if_splits)
  qed
qed

lemma addUserFavoritePlugin_first_fault:
  assumes "find (\<lambda>c. c \<in> F)
             ([Begin, FindByPk]
              @ (if body_pluginId req \<in> id' ` set (plugins db)
                 then FindOne #
                      (if \<lparr>fav_userId = uid (userData req), fav_id = body_pluginId req\<rparr>
                            \<in> set (favoritePlugins db)
                       then [] else [Create, Increment])
                 else [])
              @ [Commit]) = Some c"
  shows "addUserFavoritePlugin F req db =
           (db,
            (if c = Commit \<and> body_pluginId req \<notin> id' ` set (plugins db)
             then [Error 404 ''Plugin not found.'']
             else if c = Commit
                     \<and> \<lparr>fav_userId = uid (userData req), fav_id = body_pluginId req\<rparr>
                           \<in> set (favoritePlugins db)
             then [Error 400 ''Plugin already favorited.'']
             else [])
            @ [Log ''Error adding favorite plugin:'' (DbError c),
               Error 500 ''Failed to add favorite plugin.''])"
proof (cases "findByPk (body_pluginId req) (plugins db)")
  case None
  then have absent: "body_pluginId req \<notin> id' ` set (plugins db)"
    by (simp add: findByPk_None_iff)
  from assms absent None show ?thesis
    by (simp add: addUserFavoritePlugin_def transaction_def addUserFavoritePlugin_callback_def
        call_def split: if_splits)
next
  case (Some plugin)
  note found = this
  then have present: "body_pluginId req \<in> id' ` set (plugins db)"
    using findByPk_None_iff [of "body_pluginId req" "plugins db"] by simp
  show ?thesis
  proof (cases "findOne (uid (userData req)) (body_pluginId req) (favoritePlugins db)")
    case None
    then have norow: "\<lparr>fav_userId = uid (userData req), fav_id = body_pluginId req\<rparr>
                       \<notin> set (favoritePlugins db)"
      by (simp add: findOne_None_iff)
    from assms present norow found None show ?thesis
      by (simp add: addUserFavoritePlugin_def transaction_def addUserFavoritePlugin_callback_def
        call_def split: if_splits)
  next
    case (Some existing)
    then have row: "\<lparr>fav_userId = uid (userData req), fav_id = body_pluginId req\<rparr>
                       \<in> set (favoritePlugins db)"
      using findOne_None_iff [of "uid (userData req)" "body_pluginId req" "favoritePlugins db"]
      by simp
    from assms present row found Some show ?thesis
      by (simp add: addUserFavoritePlugin_def transaction_def addUserFavoritePlugin_callback_def
        call_def split: if_splits)
  qed
qed

lemma removeUserFavoritePlugin_first_fault:
  assumes "find (\<lambda>c. c \<in> F)
             ([Begin, FindOne]
              @ (if \<lparr>fav_userId = uid (userData req), fav_id = params_pluginId req\<rparr>
                      \<in> set (favoritePlugins db)
                 then [Destroy, FindByPk]
                      @ (if params_pluginId req \<in> id' ` set (plugins db)
                         then [Decrement] else [])
                 else [])
              @ [Commit]) = Some c"
  shows "removeUserFavoritePlugin F req db =
           (db,
            (if c = Commit
                \<and> \<lparr>fav_userId = uid (userData req), fav_id = params_pluginId req\<rparr>
                      \<notin> set (favoritePlugins db)
             then [Error 404 ''Favorite plugin not found.'']
             else [])
            @ [Log ''Error removing favorite plugin:'' (DbError c),
               Error 500 ''Failed to remove favorite plugin.''])"
proof (cases "findOne (uid (userData req)) (params_pluginId req) (favoritePlugins db)")
  case None
  then have norow: "\<lparr>fav_userId = uid (userData req), fav_id = params_pluginId req\<rparr>
                     \<notin> set (favoritePlugins db)"
    by (simp add: findOne_None_iff)
  from assms norow None show ?thesis
    by (simp add: removeUserFavoritePlugin_def transaction_def
        removeUserFavoritePlugin_callback_def call_def split: if_splits)
next
  case (Some existing)
  note row = this
  then have present: "\<lparr>fav_userId = uid (userData req), fav_id = params_pluginId req\<rparr>
                     \<in> set (favoritePlugins db)"
    using findOne_None_iff [of "uid (userData req)" "params_pluginId req" "favoritePlugins db"]
    by simp
  show ?thesis
  proof (cases "findByPk (params_pluginId req) (plugins db)")
    case None
    then have gone: "params_pluginId req \<notin> id' ` set (plugins db)"
      by (simp add: findByPk_None_iff)
    from assms present gone row None show ?thesis
      by (simp add: removeUserFavoritePlugin_def transaction_def
        removeUserFavoritePlugin_callback_def call_def split: if_splits)
  next
    case (Some plugin)
    then have found: "params_pluginId req \<in> id' ` set (plugins db)"
      using findByPk_None_iff [of "params_pluginId req" "plugins db"] by simp
    from assms present found row Some show ?thesis
      by (simp add: removeUserFavoritePlugin_def transaction_def
        removeUserFavoritePlugin_callback_def call_def split: if_splits)
  qed
qed

lemma addUserFavoritePlugin_no_fault:
  assumes "find (\<lambda>c. c \<in> F)
             ([Begin, FindByPk]
              @ (if body_pluginId req \<in> id' ` set (plugins db)
                 then FindOne #
                      (if \<lparr>fav_userId = uid (userData req), fav_id = body_pluginId req\<rparr>
                            \<in> set (favoritePlugins db)
                       then [] else [Create, Increment])
                 else [])
              @ [Commit]) = None"
  shows "500 \<notin> set (statuses (snd (addUserFavoritePlugin F req db)))"
proof (cases "findByPk (body_pluginId req) (plugins db)")
  case None
  then have absent: "body_pluginId req \<notin> id' ` set (plugins db)"
    by (simp add: findByPk_None_iff)
  from assms absent None show ?thesis
    by (simp add: addUserFavoritePlugin_def transaction_def addUserFavoritePlugin_callback_def
        call_def statuses_def split: if_splits)
next
  case (Some plugin)
  note found = this
  then have present: "body_pluginId req \<in> id' ` set (plugins db)"
    using findByPk_None_iff [of "body_pluginId req" "plugins db"] by simp
  show ?thesis
  proof (cases "findOne (uid (userData req)) (body_pluginId req) (favoritePlugins db)")
    case None
    then have norow: "\<lparr>fav_userId = uid (userData req), fav_id = body_pluginId req\<rparr>
                       \<notin> set (favoritePlugins db)"
      by (simp add: findOne_None_iff)
    from assms present norow found None show ?thesis
      by (simp add: addUserFavoritePlugin_def transaction_def addUserFavoritePlugin_callback_def
        call_def statuses_def split: if_splits)
  next
    case (Some existing)
    then have row: "\<lparr>fav_userId = uid (userData req), fav_id = body_pluginId req\<rparr>
                       \<in> set (favoritePlugins db)"
      using findOne_None_iff [of "uid (userData req)" "body_pluginId req" "favoritePlugins db"]
      by simp
    from assms present row found Some show ?thesis
      by (simp add: addUserFavoritePlugin_def transaction_def addUserFavoritePlugin_callback_def
        call_def statuses_def split: if_splits)
  qed
qed

lemma removeUserFavoritePlugin_no_fault:
  assumes "find (\<lambda>c. c \<in> F)
             ([Begin, FindOne]
              @ (if \<lparr>fav_userId = uid (userData req), fav_id = params_pluginId req\<rparr>
                      \<in> set (favoritePlugins db)
                 then [Destroy, FindByPk]
                      @ (if params_pluginId req \<in> id' ` set (plugins db)
                         then [Decrement] else [])
                 else [])
              @ [Commit]) = None"
  shows "500 \<notin> set (statuses (snd (removeUserFavoritePlugin F req db)))"
proof (cases "findOne (uid (userData req)) (params_pluginId req) (favoritePlugins db)")
  case None
  then have norow: "\<lparr>fav_userId = uid (userData req), fav_id = params_pluginId req\<rparr>
                     \<notin> set (favoritePlugins db)"
    by (simp add: findOne_None_iff)
  from assms norow None show ?thesis
    by (simp add: removeUserFavoritePlugin_def transaction_def
        removeUserFavoritePlugin_callback_def call_def statuses_def split: if_splits)
next
  case (Some existing)
  note row = this
  then have present: "\<lparr>fav_userId = uid (userData req), fav_id = params_pluginId req\<rparr>
                     \<in> set (favoritePlugins db)"
    using findOne_None_iff [of "uid (userData req)" "params_pluginId req" "favoritePlugins db"]
    by simp
  show ?thesis
  proof (cases "findByPk (params_pluginId req) (plugins db)")
    case None
    then have gone: "params_pluginId req \<notin> id' ` set (plugins db)"
      by (simp add: findByPk_None_iff)
    from assms present gone row None show ?thesis
      by (simp add: removeUserFavoritePlugin_def transaction_def
        removeUserFavoritePlugin_callback_def call_def statuses_def split: if_splits)
  next
    case (Some plugin)
    then have found: "params_pluginId req \<in> id' ` set (plugins db)"
      using findByPk_None_iff [of "params_pluginId req" "plugins db"] by simp
    from assms present found row Some show ?thesis
      by (simp add: removeUserFavoritePlugin_def transaction_def
        removeUserFavoritePlugin_callback_def call_def statuses_def split: if_splits)
  qed
qed

text \<open>
  C7, as amended. In the four add and remove handlers, whenever a database call that the
  handler makes raises, the exception of the first such call is the one logged, the response
  500 is issued last, and the database is unchanged; the 404 or 400 of the callback precedes
  the log entry only when it is the commit that raised. When none of these calls raises, no
  500 is issued. In the fetch handlers \<^verbatim>\<open>getUserThemes\<close>, \<^verbatim>\<open>getUserFavoriteThemes\<close> and
  \<^verbatim>\<open>getUserFavoritePlugins\<close> an exception of the query is swallowed by the empty
  \<^verbatim>\<open>catch\<close>: nothing is logged and the answer is 403 "Unauthorized access.", the
  "403 otherwise" of their doc comments.
\<close>

theorem exception_500_in_favorite_handlers_403_in_fetch_handlers:
  "(find (\<lambda>c. c \<in> F)
             ([Begin, FindByPk]
              @ (if body_themeId req \<in> id' ` set (themes db)
                 then FindOne #
                      (if \<lparr>fav_userId = uid (userData req), fav_id = body_themeId req\<rparr>
                            \<in> set (favoriteThemes db)
                       then [] else [Create, Increment])
                 else [])
              @ [Commit]) = Some c
      \<longrightarrow> addUserFavoriteTheme F req db =
           (db,
            (if c = Commit \<and> body_themeId req \<notin> id' ` set (themes db)
             then [Error 404 ''Theme not found.'']
             else if c = Commit
                     \<and> \<lparr>fav_userId = uid (userData req), fav_id = body_themeId req\<rparr>
                           \<in> set (favoriteThemes db)
             then [Error 400 ''Theme already favorited.'']
             else [])
            @ [Log ''Error adding favorite theme:'' (DbError c),
               Error 500 ''Failed to add favorite theme.'']))
   \<and> (find (\<lambda>c. c \<in> F)
             ([Begin, FindByPk]
              @ (if body_themeId req \<in> id' ` set (themes db)
                 then FindOne #
                      (if \<lparr>fav_userId = uid (userData req), fav_id = body_themeId req\<rparr>
                            \<in> set (favoriteThemes db)
                       then [] else [Create, Increment])
                 else [])
              @ [Commit]) = None
      \<longrightarrow> 500 \<notin> set (statuses (snd (addUserFavoriteTheme F req db))))
   \<and> (find (\<lambda>c. c \<in> F)
             ([Begin, FindOne]
              @ (if \<lparr>fav_userId = uid (userData req), fav_id = params_themeId req\<rparr>
                      \<in> set (favoriteThemes db)
                 then [Destroy, FindByPk]
                      @ (if params_themeId req \<in> id' ` set (themes db)
                         then [Decrement] else [])
                 else [])
              @ [Commit]) = Some c
      \<longrightarrow> removeUserFavoriteTheme F req db =
           (db,
            (if c = Commit
                \<and> \<lparr>fav_userId = uid (userData req), fav_id = params_themeId req\<rparr>
                      \<notin> set (favoriteThemes db)
             then [Error 404 ''Favorite theme not found.'']
             else [])
            @ [Log ''Error removing favorite theme:'' (DbError c),
               Error 500 ''Failed to remove favorite theme.'']))
   \<and> (find (\<lambda>c. c \<in> F)
             ([Begin, FindOne]
              @ (if \<lparr>fav_userId = uid (userData req), fav_id = params_themeId req\<rparr>
                      \<in> set (favoriteThemes db)
                 then [Destroy, FindByPk]
                      @ (if params_themeId req \<in> id' ` set (themes db)
                         then [Decrement] else [])
                 else [])
              @ [Commit]) = None
      \<longrightarrow> 500 \<notin> set (statuses (snd (removeUserFavoriteTheme F req db))))
   \<and> (find (\<lambda>c. c \<in> F)
             ([Begin, FindByPk]
              @ (if body_pluginId req \<in> id' ` set (plugins db)
                 then FindOne #
                      (if \<lparr>fav_userId = uid (userData req), fav_id = body_pluginId req\<rparr>
                            \<in> set (favoritePlugins db)
                       then [] else [Create, Increment])
                 else [])
              @ [Commit]) = Some c
      \<longrightarrow> addUserFavoritePlugin F req db =
           (db,
            (if c = Commit \<and> body_pluginId req \<notin> id' ` set (plugins db)
             then [Error 404 ''Plugin not found.'']
             else if c = Commit
                     \<and> \<lparr>fav_userId = uid (userData req), fav_id = body_pluginId req\<rparr>
                           \<in> set (favoritePlugins db)
             then [Error 400 ''Plugin already favorited.'']
             else [])
            @ [Log ''Error adding favorite plugin:'' (DbError c),
               Error 500 ''Failed to add favorite plugin.'']))
   \<and> (find (\<lambda>c. c \<in> F)
             ([Begin, FindByPk]
              @ (if body_pluginId req \<in> id' ` set (plugins db)
                 then FindOne #
                      (if \<lparr>fav_userId = uid (userData req), fav_id = body_pluginId req\<rparr>
                            \<in> set (favoritePlugins db)
                       then [] else [Create, Increment])
                 else [])
              @ [Commit]) = None
      \<longrightarrow> 500 \<notin> set (statuses (snd (addUserFavoritePlugin F req db))))
   \<and> (find (\<lambda>c. c \<in> F)
             ([Begin, FindOne]
              @ (if \<lparr>fav_userId = uid (userData req), fav_id = params_pluginId req\<rparr>
                      \<in> set (favoritePlugins db)
                 then [Destroy, FindByPk]
                      @ (if params_pluginId req \<in> id' ` set (plugins db)
                         then [Decrement] else [])
                 else [])
              @ [Commit]) = Some c
      \<longrightarrow> removeUserFavoritePlugin F req db =
           (db,
            (if c = Commit
                \<and> \<lparr>fav_userId = uid (userData req), fav_id = params_pluginId req\<rparr>
                      \<notin> set (favoritePlugins db)
             then [Error 404 ''Favorite plugin not found.'']
             else [])
            @ [Log ''Error removing favorite plugin:'' (DbError c),
               Error 500 ''Failed to remove favorite plugin.'']))
   \<and> (find (\<lambda>c. c \<in> F)
             ([Begin, FindOne]
              @ (if \<lparr>fav_userId = uid (userData req), fav_id = params_pluginId req\<rparr>
                      \<in> set (favoritePlugins db)
                 then [Destroy, FindByPk]
                      @ (if params_pluginId req \<in> id' ` set (plugins db)
                         then [Decrement] else [])
                 else [])
              @ [Commit]) = None
      \<longrightarrow> 500 \<notin> set (statuses (snd (removeUserFavoritePlugin F req db))))
   \<and> (authorized checkIsAdminUser req \<and> FindAll \<in> F
      \<longrightarrow> getUserThemes F checkIsAdminUser req db = [Error 403 ''Unauthorized access.'']
          \<and> getUserFavoriteThemes F checkIsAdminUser req db = [Error 403 ''Unauthorized access.'']
          \<and> getUserFavoritePlugins F checkIsAdminUser req db
              = [Error 403 ''Unauthorized access.''])"
  by (intro conjI impI
      addUserFavoriteTheme_first_fault addUserFavoriteTheme_no_fault
      removeUserFavoriteTheme_first_fault removeUserFavoriteTheme_no_fault
      addUserFavoritePlugin_first_fault addUserFavoritePlugin_no_fault
      removeUserFavoritePlugin_first_fault removeUserFavoritePlugin_no_fault)
    (simp_all add: fetch_authorized)

theorem exception_500_in_favorite_handlers_403_in_fetch_handlers_witness:
  "find (\<lambda>c. c \<in> {Create, Destroy, FindAll})
        ([Begin, FindByPk]
         @ (if body_themeId (request bob None ''t1'' ''p1'') \<in> id' ` set (themes dbFav)
            then FindOne #
                 (if \<lparr>fav_userId = uid (userData (request bob None ''t1'' ''p1'')), fav_id = body_themeId (request bob None ''t1'' ''p1'')\<rparr>
                       \<in> set (favoriteThemes dbFav)
                  then [] else [Create, Increment])
            else [])
         @ [Commit]) = Some Create
   \<and> find (\<lambda>c. c \<in> {Create, Destroy, FindAll})
        ([Begin, FindOne]
         @ (if \<lparr>fav_userId = uid (userData (request alice None ''t1'' ''p1'')), fav_id = params_themeId (request alice None ''t1'' ''p1'')\<rparr>
                 \<in> set (favoriteThemes dbFav)
            then [Destroy, FindByPk]
                 @ (if params_themeId (request alice None ''t1'' ''p1'') \<in> id' ` set (themes dbFav)
                    then [Decrement] else [])
            else [])
         @ [Commit]) = Some Destroy
   \<and> find (\<lambda>c. c \<in> {Create, Destroy, FindAll})
        ([Begin, FindByPk]
         @ (if body_pluginId (request bob None ''t1'' ''p1'') \<in> id' ` set (plugins dbFav)
            then FindOne #
                 (if \<lparr>fav_userId = uid (userData (request bob None ''t1'' ''p1'')), fav_id = body_pluginId (request bob None ''t1'' ''p1'')\<rparr>
                       \<in> set (favoritePlugins dbFav)
                  then [] else [Create, Increment])
            else [])
         @ [Commit]) = Some Create
   \<and> find (\<lambda>c. c \<in> {Create, Destroy, FindAll})
        ([Begin, FindOne]
         @ (if \<lparr>fav_userId = uid (userData (request alice None ''t1'' ''p1'')), fav_id = params_pluginId (request alice None ''t1'' ''p1'')\<rparr>
                 \<in> set (favoritePlugins dbFav)
            then [Destroy, FindByPk]
                 @ (if params_pluginId (request alice None ''t1'' ''p1'') \<in> id' ` set (plugins dbFav)
                    then [Decrement] else [])
            else [])
         @ [Commit]) = Some Destroy
   \<and> addUserFavoriteTheme {Create, Destroy, FindAll} (request bob None ''t1'' ''p1'') dbFav =
        (dbFav, [Log ''Error adding favorite theme:'' (DbError Create),
                 Error 500 ''Failed to add favorite theme.''])
   \<and> removeUserFavoriteTheme {Create, Destroy, FindAll} (request alice None ''t1'' ''p1'') dbFav =
        (dbFav, [Log ''Error removing favorite theme:'' (DbError Destroy),
                 Error 500 ''Failed to remove favorite theme.''])
   \<and> addUserFavoritePlugin {Create, Destroy, FindAll} (request bob None ''t1'' ''p1'') dbFav =
        (dbFav, [Log ''Error adding favorite plugin:'' (DbError Create),
                 Error 500 ''Failed to add favorite plugin.''])
   \<and> removeUserFavoritePlugin {Create, Destroy, FindAll} (request alice None ''t1'' ''p1'') dbFav =
        (dbFav, [Log ''Error removing favorite plugin:'' (DbError Destroy),
                 Error 500 ''Failed to remove favorite plugin.''])
   \<and> authorized onlyRoot (request bob None ''t1'' ''p1'')
   \<and> FindAll \<in> {Create, Destroy, FindAll}
   \<and> getUserThemes {Create, Destroy, FindAll} onlyRoot (request bob None ''t1'' ''p1'') dbFav = [Error 403 ''Unauthorized access.'']
   \<and> getUserFavoriteThemes {Create, Destroy, FindAll} onlyRoot (request bob None ''t1'' ''p1'') dbFav = [Error 403 ''Unauthorized access.'']
   \<and> getUserFavoritePlugins {Create, Destroy, FindAll} onlyRoot (request bob None ''t1'' ''p1'') dbFav = [Error 403 ''Unauthorized access.'']"
proof -
  have h1: "find (\<lambda>c. c \<in> {Create, Destroy, FindAll})
        ([Begin, FindByPk]
         @ (if body_themeId (request bob None ''t1'' ''p1'') \<in> id' ` set (themes dbFav)
            then FindOne #
                 (if \<lparr>fav_userId = uid (userData (request bob None ''t1'' ''p1'')), fav_id = body_themeId (request bob None ''t1'' ''p1'')\<rparr>
                       \<in> set (favoriteThemes dbFav)
                  then [] else [Create, Increment])
            else [])
         @ [Commit]) = Some Create"
    by (simp add: request_def bob_def dbFav_def)
  have h2: "find (\<lambda>c. c \<in> {Create, Destroy, FindAll})
        ([Begin, FindOne]
         @ (if \<lparr>fav_userId = uid (userData (request alice None ''t1'' ''p1'')), fav_id = params_themeId (request alice None ''t1'' ''p1'')\<rparr>
                 \<in> set (favoriteThemes dbFav)
            then [Destroy, FindByPk]
                 @ (if params_themeId (request alice None ''t1'' ''p1'') \<in> id' ` set (themes dbFav)
                    then [Decrement] else [])
            else [])
         @ [Commit]) = Some Destroy"
    by (simp add: request_def alice_def dbFav_def)
  have h3: "find (\<lambda>c. c \<in> {Create, Destroy, FindAll})
        ([Begin, FindByPk]
         @ (if body_pluginId (request bob None ''t1'' ''p1'') \<in> id' ` set (plugins dbFav)
            then FindOne #
                 (if \<lparr>fav_userId = uid (userData (request bob None ''t1'' ''p1'')), fav_id = body_pluginId (request bob None ''t1'' ''p1'')\<rparr>
                       \<in> set (favoritePlugins dbFav)
                  then [] else [Create, Increment])
            else [])
         @ [Commit]) = Some Create"
    by (simp add: request_def bob_def dbFav_def)
  have h4: "find (\<lambda>c. c \<in> {Create, Destroy, FindAll})
        ([Begin, FindOne]
         @ (if \<lparr>fav_userId = uid (userData (request alice None ''t1'' ''p1'')), fav_id = params_pluginId (request alice None ''t1'' ''p1'')\<rparr>
                 \<in> set (favoritePlugins dbFav)
            then [Destroy, FindByPk]
                 @ (if params_pluginId (request alice None ''t1'' ''p1'') \<in> id' ` set (plugins dbFav)
                    then [Decrement] else [])
            else [])
         @ [Commit]) = Some Destroy"
    by (simp add: request_def alice_def dbFav_def)
  have au: "authorized onlyRoot (request bob None ''t1'' ''p1'')"
    by (simp add: authorized_def request_def)
  have fa: "FindAll \<in> {Create, Destroy, FindAll}" by simp
  note add = exception_500_in_favorite_handlers_403_in_fetch_handlers
    [of "{Create, Destroy, FindAll}" "request bob None ''t1'' ''p1''" dbFav Create onlyRoot]
  note remove = exception_500_in_favorite_handlers_403_in_fetch_handlers
    [of "{Create, Destroy, FindAll}" "request alice None ''t1'' ''p1''" dbFav Destroy onlyRoot]
  have r1: "addUserFavoriteTheme {Create, Destroy, FindAll} (request bob None ''t1'' ''p1'') dbFav =
        (dbFav, [Log ''Error adding favorite theme:'' (DbError Create),
                 Error 500 ''Failed to add favorite theme.''])"
    using add [THEN conjunct1, rule_format, OF h1]
    by (simp add: request_def bob_def dbFav_def)
  have r2: "removeUserFavoriteTheme {Create, Destroy, FindAll} (request alice None ''t1'' ''p1'') dbFav =
        (dbFav, [Log ''Error removing favorite theme:'' (DbError Destroy),
                 Error 500 ''Failed to remove favorite theme.''])"
    using remove [THEN conjunct2, THEN conjunct2, THEN conjunct1, rule_format, OF h2]
    by (simp add: request_def alice_def dbFav_def)
  have r3: "addUserFavoritePlugin {Create, Destroy, FindAll} (request bob None ''t1'' ''p1'') dbFav =
        (dbFav, [Log ''Error adding favorite plugin:'' (DbError Create),
                 Error 500 ''Failed to add favorite plugin.''])"
    using add [THEN conjunct2, THEN conjunct2, THEN conjunct2, THEN conjunct2, THEN conjunct1, rule_format, OF h3]
    by (simp add: request_def bob_def dbFav_def)
  have r4: "removeUserFavoritePlugin {Create, Destroy, FindAll} (request alice None ''t1'' ''p1'') dbFav =
        (dbFav, [Log ''Error removing favorite plugin:'' (DbError Destroy),
                 Error 500 ''Failed to remove favorite plugin.''])"
    using remove [THEN conjunct2, THEN conjunct2, THEN conjunct2, THEN conjunct2, THEN conjunct2, THEN conjunct2, THEN conjunct1, rule_format, OF h4]
    by (simp add: request_def alice_def dbFav_def)
  have fetch: "getUserThemes {Create, Destroy, FindAll} onlyRoot (request bob None ''t1'' ''p1'') dbFav = [Error 403 ''Unauthorized access.'']
   \<and> getUserFavoriteThemes {Create, Destroy, FindAll} onlyRoot (request bob None ''t1'' ''p1'') dbFav = [Error 403 ''Unauthorized access.'']
   \<and> getUserFavoritePlugins {Create, Destroy, FindAll} onlyRoot (request bob None ''t1'' ''p1'') dbFav = [Error 403 ''Unauthorized access.'']"
    using add [THEN conjunct2, THEN conjunct2, THEN conjunct2, THEN conjunct2, THEN conjunct2, THEN conjunct2, THEN conjunct2, THEN conjunct2, rule_format, OF conjI [OF au fa]] .
  from h1 h2 h3 h4 r1 r2 r3 r4 au fa fetch [THEN conjunct1]
    fetch [THEN conjunct2, THEN conjunct1] fetch [THEN conjunct2, THEN conjunct2]
  show ?thesis
    by (intro conjI)
qed

text \<open>
  C7 as stated fails: for an authorized request whose \<^verbatim>\<open>findAll\<close> raises, the three fetch
  handlers issue the single response 403; there is no log entry and no 500.
\<close>

theorem fetch_exception_answers_403_counterexample:
  "getUserThemes {FindAll} onlyRoot (request bob None ''t1'' ''p1'') dbFav
     = [Error 403 ''Unauthorized access.'']
   \<and> getUserFavoriteThemes {FindAll} onlyRoot (request bob None ''t1'' ''p1'') dbFav
     = [Error 403 ''Unauthorized access.'']
   \<and> getUserFavoritePlugins {FindAll} onlyRoot (request bob None ''t1'' ''p1'') dbFav
     = [Error 403 ''Unauthorized access.'']"
  by (simp add: getUserThemes_def getUserFavoriteThemes_def getUserFavoritePlugins_def
      call_def request_def)

text \<open>
  C2 at a failing input. The user alice asks to add the theme \<open>t9\<close> and the plugin \<open>p9\<close>,
  which do not exist, and no database call raises: each add handler calls
  \<^verbatim>\<open>sendErrorResponse(res, 404, ...)\<close> in the callback and then
  \<^verbatim>\<open>sendSuccessResponse(res, 201, ...)\<close> after the transaction. The 404 and the 201 are
  both issued for the one request.
\<close>

theorem missing_entity_404_then_201:
  "addUserFavoriteTheme {} (request alice None ''t9'' ''p9'') dbFav =
     (dbFav, [Error 404 ''Theme not found.'',
              Success 201 EmptyObject ''Added theme to favorites successfully.''])
   \<and> addUserFavoritePlugin {} (request alice None ''t9'' ''p9'') dbFav =
     (dbFav, [Error 404 ''Plugin not found.'',
              Success 201 EmptyObject ''Added plugin to favorites successfully.''])
   \<and> statuses (snd (addUserFavoriteTheme {} (request alice None ''t9'' ''p9'') dbFav)) = [404, 201]
   \<and> statuses (snd (addUserFavoritePlugin {} (request alice None ''t9'' ''p9'') dbFav)) = [404, 201]"
proof -
  have t: "addUserFavoriteTheme {} (request alice None ''t9'' ''p9'') dbFav =
     (dbFav, [Error 404 ''Theme not found.'',
              Success 201 EmptyObject ''Added theme to favorites successfully.''])"
    by (simp add: addUserFavoriteTheme_def transaction_def addUserFavoriteTheme_callback_def
        call_def findByPk_def request_def dbFav_def)
  have p: "addUserFavoritePlugin {} (request alice None ''t9'' ''p9'') dbFav =
     (dbFav, [Error 404 ''Plugin not found.'',
              Success 201 EmptyObject ''Added plugin to favorites successfully.''])"
    by (simp add: addUserFavoritePlugin_def transaction_def addUserFavoritePlugin_callback_def
        call_def findByPk_def request_def dbFav_def)
  show ?thesis
    by (simp add: t p statuses_def List.map_filter_simps)
qed

end
